theory Spec2Isabelle
  imports Complex_Main
begin

section \<open>Strings\<close>

text \<open>
  A Python \<open>str\<close> is a sequence of Unicode code points; the display names of the catalogue
  are Cyrillic, so a string is modelled as the list of its code points. \<open>ascii\<close> embeds an
  ASCII literal.
\<close>

type_synonym pystr = "nat list"

definition ascii :: "string \<Rightarrow> pystr" where
  "ascii s = map of_char s"

text \<open>
  \<open>str.lower\<close> and \<open>str.upper\<close>, code point by code point, on the Basic Latin block and on
  the Cyrillic block U+0400..U+045F, where the Unicode case mapping is one code point to
  one code point. These two blocks hold every code point of every name of the catalogue
  (\<open>catalog_code_points\<close> below). Any other code point is left as it is: that is Python's
  result for a code point without a case mapping, and a restriction of the model for the
  other cased scripts. The source calls \<open>lower\<close> only; \<open>upper_cp\<close> serves to state what a
  change of letter case is.
\<close>

definition lower_cp :: "nat \<Rightarrow> nat" where
  "lower_cp c =
     (if 65 \<le> c \<and> c \<le> 90 then c + 32
      else if 1040 \<le> c \<and> c \<le> 1071 then c + 32
      else if 1024 \<le> c \<and> c \<le> 1039 then c + 80
      else c)"

definition upper_cp :: "nat \<Rightarrow> nat" where
  "upper_cp c =
     (if 97 \<le> c \<and> c \<le> 122 then c - 32
      else if 1072 \<le> c \<and> c \<le> 1103 then c - 32
      else if 1104 \<le> c \<and> c \<le> 1119 then c - 80
      else c)"

definition lower :: "pystr \<Rightarrow> pystr" where
  "lower s = map lower_cp s"

text \<open>
  The code points \<open>str.strip()\<close> removes when called without an argument: those for which
  \<open>str.isspace\<close> holds.
\<close>

definition is_space :: "nat \<Rightarrow> bool" where
  "is_space c \<longleftrightarrow>
     (9 \<le> c \<and> c \<le> 13) \<or> (28 \<le> c \<and> c \<le> 32) \<or> c = 133 \<or> c = 160 \<or> c = 5760
     \<or> (8192 \<le> c \<and> c \<le> 8202) \<or> c = 8232 \<or> c = 8233 \<or> c = 8239 \<or> c = 8287
     \<or> c = 12288"

definition strip :: "pystr \<Rightarrow> pystr" where
  "strip s = rev (dropWhile is_space (rev (dropWhile is_space s)))"

section \<open>The indicator registry\<close>

text \<open>
  \<open>class Indicator\<close>: the constructor keeps \<open>id\<close> and \<open>display_name\<close> as given and
  normalises every alias with \<open>a.lower().strip()\<close>.
\<close>

record Indicator =
  id_of :: pystr
  display_name :: pystr
  aliases :: "pystr list"

definition Indicator_init :: "pystr \<Rightarrow> pystr \<Rightarrow> pystr list \<Rightarrow> Indicator" where
  "Indicator_init i n as =
     \<lparr>id_of = i, display_name = n, aliases = map (\<lambda>a. strip (lower a)) as\<rparr>"

text \<open>
  \<open>class FinancialCalculator\<close>: three dictionaries. Amounts are Python floats; they are
  idealised as reals, so rounding is outside the model (every concrete amount below is a
  small integer, which a float holds exactly).
\<close>

record FinancialCalculator =
  data :: "pystr \<rightharpoonup> real"
  registry :: "pystr \<rightharpoonup> Indicator"
  alias_map :: "pystr \<rightharpoonup> pystr"

text \<open>
  The local helper \<open>reg\<close> of \<open>_initialize_registry\<close>: the assignments to \<open>alias_map\<close>
  happen in this order, a later one overwriting an earlier one on the same key.
\<close>

definition reg :: "pystr \<Rightarrow> pystr \<Rightarrow> pystr list \<Rightarrow> FinancialCalculator \<Rightarrow> FinancialCalculator" where
  "reg i n as c =
     (let ind = Indicator_init i n as in
      c\<lparr>registry := (registry c)(i \<mapsto> ind),
        alias_map := fold (\<lambda>alias m. m(alias \<mapsto> i)) (aliases ind)
                       ((alias_map c)(lower i \<mapsto> i, lower n \<mapsto> i))\<rparr>)"

text \<open>
  The arguments of the 22 calls of \<open>reg\<close>, in the order of the source: id, display name,
  aliases. The display names are Russian; each is given by its code points.
\<close>

definition catalog :: "(pystr \<times> pystr \<times> pystr list) list" where
  "catalog =
   [(ascii ''OperationalCF'',
     [1054, 1087, 1077, 1088, 1072, 1094, 1080, 1086, 1085, 1085, 1099, 1081, 32, 1076,
      1077, 1085, 1077, 1078, 1085, 1099, 1081, 32, 1087, 1086, 1090, 1086, 1082],
     [ascii ''delOperationalCF'', ascii ''OCF'', ascii ''delOCF'',
      ascii ''Operational Cash Flow'']),
    (ascii ''InvestingCF'',
     [1048, 1085, 1074, 1077, 1089, 1090, 1080, 1094, 1080, 1086, 1085, 1085, 1099, 1081,
      32, 1076, 1077, 1085, 1077, 1078, 1085, 1099, 1081, 32, 1087, 1086, 1090, 1086, 1082],
     [ascii ''delInvestingCF'', ascii ''ICF'', ascii ''delICF'',
      ascii ''Investing Cash Flow'']),
    (ascii ''FinancingCF'',
     [1060, 1080, 1085, 1072, 1085, 1089, 1086, 1074, 1099, 1081, 32, 1076, 1077, 1085,
      1077, 1078, 1085, 1099, 1081, 32, 1087, 1086, 1090, 1086, 1082],
     [ascii ''delFinancingCF'', ascii ''FCF'', ascii ''delFCF'',
      ascii ''Financing Cash Flow'']),
    (ascii ''Cash'',
     [1044, 1077, 1085, 1077, 1078, 1085, 1099, 1077, 32, 1089, 1088, 1077, 1076, 1089,
      1090, 1074, 1072],
     [ascii ''delCash'', ascii ''C'', ascii ''delC'', ascii ''Cash'']),
    (ascii ''assets'',
     [1040, 1082, 1090, 1080, 1074, 1099],
     [ascii ''delAssets'', ascii ''A'', ascii ''delA'', ascii ''Assets'']),
    (ascii ''liabilities'',
     [1054, 1073, 1103, 1079, 1072, 1090, 1077, 1083, 1100, 1089, 1090, 1074, 1072],
     [ascii ''delLiabilities'', ascii ''L'', ascii ''delL'', ascii ''Liabilities'']),
    (ascii ''equity'',
     [1057, 1086, 1073, 1089, 1090, 1074, 1077, 1085, 1085, 1099, 1081, 32, 1082, 1072,
      1087, 1080, 1090, 1072, 1083],
     [ascii ''delEquity'', ascii ''E'', ascii ''delE'', ascii ''Equity'']),
    (ascii ''retained_earnings'',
     [1053, 1072, 1082, 1086, 1087, 1083, 1077, 1085, 1085, 1072, 1103, 32, 1087, 1088,
      1080, 1073, 1099, 1083, 1100],
     [ascii ''delRetainedEarnings'', ascii ''RE'', ascii ''delRE'',
      ascii ''Retained Earnings'']),
    (ascii ''current_assets'',
     [1054, 1073, 1086, 1088, 1086, 1090, 1085, 1099, 1077, 32, 1072, 1082, 1090, 1080,
      1074, 1099],
     [ascii ''delCurrentAssets'', ascii ''CA'', ascii ''delCA'', ascii ''Current Assets'']),
    (ascii ''non_current_assets'',
     [1042, 1085, 1077, 1086, 1073, 1086, 1088, 1086, 1090, 1085, 1099, 1077, 32, 1072,
      1082, 1090, 1080, 1074, 1099],
     [ascii ''delNonCurrentAssets'', ascii ''NCA'', ascii ''delNCA'',
      ascii ''Non-Current Assets'']),
    (ascii ''contributed_capital'',
     [1040, 1082, 1094, 1080, 1086, 1085, 1077, 1088, 1085, 1099, 1081, 32, 1082, 1072,
      1087, 1080, 1090, 1072, 1083],
     [ascii ''delContributedCapital'', ascii ''CC'', ascii ''delCC'',
      ascii ''Contributed Capital'']),
    (ascii ''other_equity'',
     [1055, 1088, 1086, 1095, 1080, 1081, 32, 1089, 1086, 1073, 1089, 1090, 1074, 1077,
      1085, 1085, 1099, 1081, 32, 1082, 1072, 1087, 1080, 1090, 1072, 1083],
     [ascii ''delOtherEquity'', ascii ''OE'', ascii ''delOE'', ascii ''Other Equity'',
      ascii ''other_equity'']),
    (ascii ''non-current liabilities'',
     [1044, 1086, 1083, 1075, 1086, 1089, 1088, 1086, 1095, 1085, 1099, 1077, 32, 1086,
      1073, 1103, 1079, 1072, 1090, 1077, 1083, 1100, 1089, 1090, 1074, 1072],
     [ascii ''delNonCurrentLiabilities'', ascii ''NCL'', ascii ''delNCL'',
      ascii ''Non-Current Liabilities'', ascii ''non-current_liabilities'']),
    (ascii ''net_income'',
     [1063, 1080, 1089, 1090, 1072, 1103, 32, 1087, 1088, 1080, 1073, 1099, 1083, 1100],
     [ascii ''delNetIncome'', ascii ''NI'', ascii ''Net Income'', ascii ''net income'']),
    (ascii ''dividends'',
     [1044, 1080, 1074, 1080, 1076, 1077, 1085, 1076, 1099],
     [ascii ''delDividends'', ascii ''Div'', ascii ''delDiv'', ascii ''Dividends'']),
    (ascii ''net_accounts_receivable'',
     [1044, 1077, 1073, 1080, 1090, 1086, 1088, 1089, 1082, 1072, 1103, 32, 1079, 1072,
      1076, 1086, 1083, 1078, 1077, 1085, 1085, 1086, 1089, 1090, 1100, 32, 40, 1079,
      1072, 32, 1074, 1099, 1095, 1077, 1090, 1086, 1084, 32, 1088, 1077, 1079, 1077,
      1088, 1074, 1072, 32, 1087, 1086, 32, 1089, 1086, 1084, 1085, 1080, 1090, 1077,
      1083, 1100, 1085, 1099, 1084, 32, 1076, 1086, 1083, 1075, 1072, 1084, 32, 1080,
      32, 1087, 1088, 1086, 1095, 1080, 1093, 32, 1088, 1077, 1079, 1077, 1088, 1074,
      1086, 1074, 41],
     [ascii ''delNetAccountsReceivable'', ascii ''NetA/R'', ascii ''delNetA/R'',
      ascii ''Net Accounts Receivable'', ascii ''net accounts receivable'']),
    (ascii ''inventory'',
     [1058, 1086, 1074, 1072, 1088, 1085, 1086, 45, 1084, 1072, 1090, 1077, 1088, 1080,
      1072, 1083, 1100, 1085, 1099, 1077, 32, 1079, 1072, 1087, 1072, 1089, 1099],
     [ascii ''delInventory'', ascii ''Inv'', ascii ''delInv'', ascii ''Inventory'']),
    (ascii ''other_current_assets'',
     [1055, 1088, 1086, 1095, 1080, 1077, 32, 1086, 1073, 1086, 1088, 1086, 1090, 1085,
      1099, 1077, 32, 1072, 1082, 1090, 1080, 1074, 1099],
     [ascii ''delOtherCurrentAssets'', ascii ''OCA'', ascii ''delOCA'',
      ascii ''Other Current Assets'']),
    (ascii ''net_property, plant & equipment'',
     [1054, 1089, 1085, 1086, 1074, 1085, 1099, 1077, 32, 1089, 1088, 1077, 1076, 1089,
      1090, 1074, 1072, 32, 40, 1079, 1072, 32, 1074, 1099, 1095, 1077, 1090, 1086, 1084,
      32, 1085, 1072, 1082, 1086, 1087, 1083, 1077, 1085, 1085, 1086, 1081, 32, 1072,
      1084, 1086, 1088, 1090, 1080, 1079, 1072, 1094, 1080, 1080, 41],
     [ascii ''delNetPropertyPlantEquipment'', ascii ''NetPPE'', ascii ''delNetPPE'',
      ascii ''Net Property Plant Equipment'', ascii ''net property plant equipment'']),
    (ascii ''other_non_current_assets'',
     [1055, 1088, 1086, 1095, 1080, 1077, 32, 1074, 1085, 1077, 1073, 1086, 1088, 1086,
      1090, 1085, 1099, 1077, 32, 1072, 1082, 1090, 1080, 1074, 1099],
     [ascii ''delOtherNonCurrentAssets'', ascii ''ONCA'', ascii ''delONCA'',
      ascii ''Other Non-Current Assets'']),
    (ascii ''depreciation_expence'',
     [1040, 1084, 1086, 1088, 1090, 1080, 1079, 1072, 1094, 1080, 1103],
     [ascii ''delDepreciationExpence'', ascii ''DE'', ascii ''delDE'', ascii ''DepExp'',
      ascii ''Depreciation Expence'', ascii ''depreciation_expence'']),
    (ascii ''gain_loss_on_disposal_of_PPE'',
     [1055, 1088, 1080, 1073, 1099, 1083, 1100, 32, 40, 1091, 1073, 1099, 1090, 1086,
      1082, 41, 32, 1086, 1090, 32, 1088, 1077, 1072, 1083, 1080, 1079, 1072, 1094, 1080,
      1080, 32, 1086, 1073, 1098, 1077, 1082, 1090, 1086, 1074, 32, 1086, 1089, 1085,
      1086, 1074, 1085, 1099, 1093, 32, 1089, 1088, 1077, 1076, 1089, 1090, 1074],
     [ascii ''delGainLossOnDisposalOfPPE'', ascii ''GLODOPPE'', ascii ''Gain(Loss)'',
      ascii ''delGain(Loss)'', ascii ''Gain Loss On Disposal Of PPE'',
      ascii ''gain loss on disposal of ppe''])]"

definition initialize_registry :: "FinancialCalculator \<Rightarrow> FinancialCalculator" where
  "initialize_registry c = fold (\<lambda>(i, n, as). reg i n as) catalog c"

text \<open>\<open>FinancialCalculator.__init__\<close>: three empty dictionaries, then the registry.\<close>

definition FinancialCalculator_init :: FinancialCalculator where
  "FinancialCalculator_init =
     initialize_registry \<lparr>data = Map.empty, registry = Map.empty, alias_map = Map.empty\<rparr>"

section \<open>The value store\<close>

definition resolve_name :: "FinancialCalculator \<Rightarrow> pystr \<Rightarrow> pystr option" where
  "resolve_name c name = alias_map c (strip (lower name))"

text \<open>
  \<open>if not canonical_id\<close>: Python takes this branch when \<open>canonical_id\<close> is \<open>None\<close> and
  also when it is the empty string.
\<close>

definition falsy :: "pystr option \<Rightarrow> bool" where
  "falsy r = (case r of None \<Rightarrow> True | Some s \<Rightarrow> s = [])"

text \<open>
  Both \<open>set_value\<close> and \<open>get_value\<close> call \<open>print\<close>, and \<open>print\<close> raises
  \<open>UnicodeEncodeError\<close> when standard output cannot encode the text. Standard output is
  taken to be an open text stream in UTF-8 with the \<open>strict\<close> error handler, Python's
  default: it encodes every code point but the surrogates U+D800..U+DFFF, which a Python
  \<open>str\<close> can hold. (With the \<open>surrogateescape\<close> handler of the C locale the stream
  encodes U+DC80..U+DCFF too; the surrogates used in the statements below, U+D800 and
  U+D83D, are refused by both handlers.) What is written to the stream is not part of
  the state.
\<close>

definition stdout_encodes :: "pystr \<Rightarrow> bool" where
  "stdout_encodes s = list_all (\<lambda>c. c < 55296 \<or> 57343 < c) s"

text \<open>
  The exceptions of the two methods: the explicit \<open>ValueError\<close> of \<open>set_value\<close>, with its
  message; the \<open>KeyError\<close> of \<open>self.registry[canonical_id]\<close> inside the \<open>print\<close> call of
  \<open>set_value\<close>, evaluated after the store has been written; the \<open>UnicodeEncodeError\<close> of
  \<open>print\<close>.
\<close>

datatype error = ValueError pystr | KeyError pystr | UnicodeEncodeError

definition py_print :: "pystr \<Rightarrow> error + unit" where
  "py_print s = (if stdout_encodes s then Inr () else Inl UnicodeEncodeError)"

definition unknown_indicator_message :: "pystr \<Rightarrow> pystr" where
  "unknown_indicator_message name = ascii ''Unknown indicator name: '' @ [39] @ name @ [39]"

text \<open>
  The text \<open>set_value\<close> prints, up to the amount: the amount that follows is formatted in
  ASCII digits, signs and letters, which any stream encodes, so it is left out.
\<close>

definition set_message :: "pystr \<Rightarrow> pystr \<Rightarrow> pystr" where
  "set_message display cid =
     ascii ''Set '' @ [39] @ display @ [39] @ ascii '' ('' @ cid @ ascii '') = ''"

text \<open>
  \<open>set_value\<close> returns the outcome together with the calculator as the call leaves it, so
  that what an exception leaves behind is part of the model. \<open>float(value)\<close> is the
  identity on an amount.
\<close>

definition set_value ::
    "pystr \<Rightarrow> real \<Rightarrow> FinancialCalculator \<Rightarrow> (error + unit) \<times> FinancialCalculator" where
  "set_value name v c =
     (let canonical_id = resolve_name c name in
      if falsy canonical_id then (Inl (ValueError (unknown_indicator_message name)), c)
      else
        (let cid = the canonical_id;
             c' = c\<lparr>data := (data c)(cid \<mapsto> v)\<rparr>
         in case registry c' cid of
              None \<Rightarrow> (Inl (KeyError cid), c')
            | Some ind \<Rightarrow> (py_print (set_message (display_name ind) cid), c')))"

definition unknown_indicator_warning :: "pystr \<Rightarrow> pystr" where
  "unknown_indicator_warning name =
     ascii ''Warning: Unknown indicator '' @ [39] @ name @ [39] @ ascii '', returning 0.0''"

text \<open>
  \<open>get_value\<close> changes nothing in the calculator. On the unresolved path it prints the
  warning before it returns, so an exception of \<open>print\<close> takes the place of the 0.0.
\<close>

definition get_value :: "pystr \<Rightarrow> FinancialCalculator \<Rightarrow> error + real" where
  "get_value name c =
     (let canonical_id = resolve_name c name in
      if falsy canonical_id then
        (case py_print (unknown_indicator_warning name) of
           Inl e \<Rightarrow> Inl e
         | Inr u \<Rightarrow> Inr 0)
      else Inr (case data c (the canonical_id) of None \<Rightarrow> 0 | Some v \<Rightarrow> v))"

section \<open>The formulas\<close>

text \<open>
  Each formula returns its total together with the calculator in which the total is
  stored. The names passed to \<open>get_value\<close> and the keys written are those of the source.
  An exception of a \<open>get_value\<close> call ends the method before anything is stored.
\<close>

definition calculate_operational_cf ::
    "FinancialCalculator \<Rightarrow> (error + real) \<times> FinancialCalculator" where
  "calculate_operational_cf c =
     (case get_value (ascii ''net_income'') c of Inl e \<Rightarrow> (Inl e, c) | Inr ni \<Rightarrow>
      case get_value (ascii ''depreciation_expence'') c of Inl e \<Rightarrow> (Inl e, c) | Inr dep_exp \<Rightarrow>
      case get_value (ascii ''net_accounts_receivable'') c of Inl e \<Rightarrow> (Inl e, c) | Inr net_ar \<Rightarrow>
      case get_value (ascii ''inventory'') c of Inl e \<Rightarrow> (Inl e, c) | Inr inv' \<Rightarrow>
      case get_value (ascii ''other_current_assets'') c of Inl e \<Rightarrow> (Inl e, c) | Inr oca \<Rightarrow>
      case get_value (ascii ''current_liabilities'') c of Inl e \<Rightarrow> (Inl e, c) | Inr cl \<Rightarrow>
      case get_value (ascii ''gain_loss_on_disposal_of_PPE'') c of Inl e \<Rightarrow> (Inl e, c)
      | Inr gain_loss \<Rightarrow>
        (let total_operation_cf = ni + dep_exp + net_ar - inv' - oca + cl - gain_loss
         in (Inr total_operation_cf,
             c\<lparr>data := (data c)(ascii ''operation_cf'' \<mapsto> total_operation_cf)\<rparr>)))"

definition calculate_investing_cf ::
    "FinancialCalculator \<Rightarrow> (error + real) \<times> FinancialCalculator" where
  "calculate_investing_cf c =
     (case get_value (ascii ''net_property_plant_equipment'') c of Inl e \<Rightarrow> (Inl e, c) | Inr nppe \<Rightarrow>
      case get_value (ascii ''gain_loss_on_disposal_of_PPE'') c of Inl e \<Rightarrow> (Inl e, c)
      | Inr gain_loss \<Rightarrow>
      case get_value (ascii ''depreciation_expence'') c of Inl e \<Rightarrow> (Inl e, c) | Inr dep_exp \<Rightarrow>
      case get_value (ascii ''other_non_current_assets'') c of Inl e \<Rightarrow> (Inl e, c) | Inr onca \<Rightarrow>
      case get_value (ascii ''other_equity'') c of Inl e \<Rightarrow> (Inl e, c) | Inr oe \<Rightarrow>
        (let total_investing_cf = - nppe + gain_loss + dep_exp - onca + oe
         in (Inr total_investing_cf,
             c\<lparr>data := (data c)(ascii ''investing_cf'' \<mapsto> total_investing_cf)\<rparr>)))"

definition calculate_financing_cf ::
    "FinancialCalculator \<Rightarrow> (error + real) \<times> FinancialCalculator" where
  "calculate_financing_cf c =
     (case get_value (ascii ''non_current_liabilities'') c of Inl e \<Rightarrow> (Inl e, c) | Inr ncl \<Rightarrow>
      case get_value (ascii ''contributed_capital'') c of Inl e \<Rightarrow> (Inl e, c) | Inr cc \<Rightarrow>
      case get_value (ascii ''dividends'') c of Inl e \<Rightarrow> (Inl e, c) | Inr div' \<Rightarrow>
        (let total_financing_cf = ncl + cc - div'
         in (Inr total_financing_cf,
             c\<lparr>data := (data c)(ascii ''financing_cf'' \<mapsto> total_financing_cf)\<rparr>)))"

definition calculate_cash ::
    "FinancialCalculator \<Rightarrow> (error + real) \<times> FinancialCalculator" where
  "calculate_cash c =
     (case get_value (ascii ''operation_cf'') c of Inl e \<Rightarrow> (Inl e, c) | Inr operation_cf \<Rightarrow>
      case get_value (ascii ''investing_cf'') c of Inl e \<Rightarrow> (Inl e, c) | Inr investing_cf \<Rightarrow>
      case get_value (ascii ''financing_cf'') c of Inl e \<Rightarrow> (Inl e, c) | Inr financing_cf \<Rightarrow>
        (let total_cash = operation_cf + investing_cf + financing_cf
         in (Inr total_cash, c\<lparr>data := (data c)(ascii ''cash'' \<mapsto> total_cash)\<rparr>)))"

section \<open>Derived notions used in the statements\<close>

text \<open>
  The keys one call of \<open>reg\<close> assigns in \<open>alias_map\<close>, in the order of the assignments:
  the lowered id, the lowered display name, then the normalised aliases.
\<close>

definition entry_keys :: "pystr \<times> pystr \<times> pystr list \<Rightarrow> pystr list" where
  "entry_keys e = (case e of (i, n, as) \<Rightarrow> lower i # lower n # map (\<lambda>a. strip (lower a)) as)"

text \<open>
  A later assignment overwrites an earlier one, so a key belongs to the last call of \<open>reg\<close>
  that assigns it.
\<close>

definition lookup_keys :: "(pystr \<times> pystr list) list \<Rightarrow> pystr \<Rightarrow> pystr option" where
  "lookup_keys tbl k = map_option fst (find (\<lambda>e. k \<in> set (snd e)) (rev tbl))"

text \<open>
  The keys of \<open>catalog\<close> written out, call by call: \<open>alias_keys_catalog\<close> below proves
  that this is what \<open>entry_keys\<close> computes.
\<close>

definition alias_keys :: "(pystr \<times> pystr list) list" where
  "alias_keys =
   [(ascii ''OperationalCF'',
     [ascii ''operationalcf'', [1086, 1087, 1077, 1088, 1072, 1094, 1080, 1086, 1085, 1085,
      1099, 1081, 32, 1076, 1077, 1085, 1077, 1078, 1085, 1099, 1081, 32, 1087, 1086, 1090,
      1086, 1082], ascii ''deloperationalcf'', ascii ''ocf'', ascii ''delocf'',
      ascii ''operational cash flow'']),
    (ascii ''InvestingCF'',
     [ascii ''investingcf'', [1080, 1085, 1074, 1077, 1089, 1090, 1080, 1094, 1080, 1086,
      1085, 1085, 1099, 1081, 32, 1076, 1077, 1085, 1077, 1078, 1085, 1099, 1081, 32, 1087,
      1086, 1090, 1086, 1082], ascii ''delinvestingcf'', ascii ''icf'', ascii ''delicf'',
      ascii ''investing cash flow'']),
    (ascii ''FinancingCF'',
     [ascii ''financingcf'', [1092, 1080, 1085, 1072, 1085, 1089, 1086, 1074, 1099, 1081,
      32, 1076, 1077, 1085, 1077, 1078, 1085, 1099, 1081, 32, 1087, 1086, 1090, 1086, 1082],
      ascii ''delfinancingcf'', ascii ''fcf'', ascii ''delfcf'',
      ascii ''financing cash flow'']),
    (ascii ''Cash'',
     [ascii ''cash'', [1076, 1077, 1085, 1077, 1078, 1085, 1099, 1077, 32, 1089, 1088, 1077,
      1076, 1089, 1090, 1074, 1072], ascii ''delcash'', ascii ''c'', ascii ''delc'',
      ascii ''cash'']),
    (ascii ''assets'',
     [ascii ''assets'', [1072, 1082, 1090, 1080, 1074, 1099], ascii ''delassets'',
      ascii ''a'', ascii ''dela'', ascii ''assets'']),
    (ascii ''liabilities'',
     [ascii ''liabilities'', [1086, 1073, 1103, 1079, 1072, 1090, 1077, 1083, 1100, 1089,
      1090, 1074, 1072], ascii ''delliabilities'', ascii ''l'', ascii ''dell'',
      ascii ''liabilities'']),
    (ascii ''equity'',
     [ascii ''equity'', [1089, 1086, 1073, 1089, 1090, 1074, 1077, 1085, 1085, 1099, 1081,
      32, 1082, 1072, 1087, 1080, 1090, 1072, 1083], ascii ''delequity'', ascii ''e'',
      ascii ''dele'', ascii ''equity'']),
    (ascii ''retained_earnings'',
     [ascii ''retained_earnings'', [1085, 1072, 1082, 1086, 1087, 1083, 1077, 1085, 1085,
      1072, 1103, 32, 1087, 1088, 1080, 1073, 1099, 1083, 1100],
      ascii ''delretainedearnings'', ascii ''re'', ascii ''delre'',
      ascii ''retained earnings'']),
    (ascii ''current_assets'',
     [ascii ''current_assets'', [1086, 1073, 1086, 1088, 1086, 1090, 1085, 1099, 1077, 32,
      1072, 1082, 1090, 1080, 1074, 1099], ascii ''delcurrentassets'', ascii ''ca'',
      ascii ''delca'', ascii ''current assets'']),
    (ascii ''non_current_assets'',
     [ascii ''non_current_assets'', [1074, 1085, 1077, 1086, 1073, 1086, 1088, 1086, 1090,
      1085, 1099, 1077, 32, 1072, 1082, 1090, 1080, 1074, 1099],
      ascii ''delnoncurrentassets'', ascii ''nca'', ascii ''delnca'',
      ascii ''non-current assets'']),
    (ascii ''contributed_capital'',
     [ascii ''contributed_capital'', [1072, 1082, 1094, 1080, 1086, 1085, 1077, 1088, 1085,
      1099, 1081, 32, 1082, 1072, 1087, 1080, 1090, 1072, 1083],
      ascii ''delcontributedcapital'', ascii ''cc'', ascii ''delcc'',
      ascii ''contributed capital'']),
    (ascii ''other_equity'',
     [ascii ''other_equity'', [1087, 1088, 1086, 1095, 1080, 1081, 32, 1089, 1086, 1073,
      1089, 1090, 1074, 1077, 1085, 1085, 1099, 1081, 32, 1082, 1072, 1087, 1080, 1090,
      1072, 1083], ascii ''delotherequity'', ascii ''oe'', ascii ''deloe'',
      ascii ''other equity'', ascii ''other_equity'']),
    (ascii ''non-current liabilities'',
     [ascii ''non-current liabilities'', [1076, 1086, 1083, 1075, 1086, 1089, 1088, 1086,
      1095, 1085, 1099, 1077, 32, 1086, 1073, 1103, 1079, 1072, 1090, 1077, 1083, 1100,
      1089, 1090, 1074, 1072], ascii ''delnoncurrentliabilities'', ascii ''ncl'',
      ascii ''delncl'', ascii ''non-current liabilities'', ascii ''non-current_liabilities'']),
    (ascii ''net_income'',
     [ascii ''net_income'', [1095, 1080, 1089, 1090, 1072, 1103, 32, 1087, 1088, 1080, 1073,
      1099, 1083, 1100], ascii ''delnetincome'', ascii ''ni'', ascii ''net income'',
      ascii ''net income'']),
    (ascii ''dividends'',
     [ascii ''dividends'', [1076, 1080, 1074, 1080, 1076, 1077, 1085, 1076, 1099],
      ascii ''deldividends'', ascii ''div'', ascii ''deldiv'', ascii ''dividends'']),
    (ascii ''net_accounts_receivable'',
     [ascii ''net_accounts_receivable'', [1076, 1077, 1073, 1080, 1090, 1086, 1088, 1089,
      1082, 1072, 1103, 32, 1079, 1072, 1076, 1086, 1083, 1078, 1077, 1085, 1085, 1086,
      1089, 1090, 1100, 32, 40, 1079, 1072, 32, 1074, 1099, 1095, 1077, 1090, 1086, 1084,
      32, 1088, 1077, 1079, 1077, 1088, 1074, 1072, 32, 1087, 1086, 32, 1089, 1086, 1084,
      1085, 1080, 1090, 1077, 1083, 1100, 1085, 1099, 1084, 32, 1076, 1086, 1083, 1075,
      1072, 1084, 32, 1080, 32, 1087, 1088, 1086, 1095, 1080, 1093, 32, 1088, 1077, 1079,
      1077, 1088, 1074, 1086, 1074, 41], ascii ''delnetaccountsreceivable'',
      ascii ''neta/r'', ascii ''delneta/r'', ascii ''net accounts receivable'',
      ascii ''net accounts receivable'']),
    (ascii ''inventory'',
     [ascii ''inventory'', [1090, 1086, 1074, 1072, 1088, 1085, 1086, 45, 1084, 1072, 1090,
      1077, 1088, 1080, 1072, 1083, 1100, 1085, 1099, 1077, 32, 1079, 1072, 1087, 1072,
      1089, 1099], ascii ''delinventory'', ascii ''inv'', ascii ''delinv'',
      ascii ''inventory'']),
    (ascii ''other_current_assets'',
     [ascii ''other_current_assets'', [1087, 1088, 1086, 1095, 1080, 1077, 32, 1086, 1073,
      1086, 1088, 1086, 1090, 1085, 1099, 1077, 32, 1072, 1082, 1090, 1080, 1074, 1099],
      ascii ''delothercurrentassets'', ascii ''oca'', ascii ''deloca'',
      ascii ''other current assets'']),
    (ascii ''net_property, plant & equipment'',
     [ascii ''net_property, plant & equipment'', [1086, 1089, 1085, 1086, 1074, 1085, 1099,
      1077, 32, 1089, 1088, 1077, 1076, 1089, 1090, 1074, 1072, 32, 40, 1079, 1072, 32,
      1074, 1099, 1095, 1077, 1090, 1086, 1084, 32, 1085, 1072, 1082, 1086, 1087, 1083,
      1077, 1085, 1085, 1086, 1081, 32, 1072, 1084, 1086, 1088, 1090, 1080, 1079, 1072,
      1094, 1080, 1080, 41], ascii ''delnetpropertyplantequipment'', ascii ''netppe'',
      ascii ''delnetppe'', ascii ''net property plant equipment'',
      ascii ''net property plant equipment'']),
    (ascii ''other_non_current_assets'',
     [ascii ''other_non_current_assets'', [1087, 1088, 1086, 1095, 1080, 1077, 32, 1074,
      1085, 1077, 1073, 1086, 1088, 1086, 1090, 1085, 1099, 1077, 32, 1072, 1082, 1090,
      1080, 1074, 1099], ascii ''delothernoncurrentassets'', ascii ''onca'',
      ascii ''delonca'', ascii ''other non-current assets'']),
    (ascii ''depreciation_expence'',
     [ascii ''depreciation_expence'', [1072, 1084, 1086, 1088, 1090, 1080, 1079, 1072, 1094,
      1080, 1103], ascii ''deldepreciationexpence'', ascii ''de'', ascii ''delde'',
      ascii ''depexp'', ascii ''depreciation expence'', ascii ''depreciation_expence'']),
    (ascii ''gain_loss_on_disposal_of_PPE'',
     [ascii ''gain_loss_on_disposal_of_ppe'', [1087, 1088, 1080, 1073, 1099, 1083, 1100, 32,
      40, 1091, 1073, 1099, 1090, 1086, 1082, 41, 32, 1086, 1090, 32, 1088, 1077, 1072,
      1083, 1080, 1079, 1072, 1094, 1080, 1080, 32, 1086, 1073, 1098, 1077, 1082, 1090,
      1086, 1074, 32, 1086, 1089, 1085, 1086, 1074, 1085, 1099, 1093, 32, 1089, 1088, 1077,
      1076, 1089, 1090, 1074], ascii ''delgainlossondisposalofppe'', ascii ''glodoppe'',
      ascii ''gain(loss)'', ascii ''delgain(loss)'', ascii ''gain loss on disposal of ppe'',
      ascii ''gain loss on disposal of ppe''])]"

text \<open>
  No key is assigned by two calls of \<open>reg\<close> with different ids: a check that runs over
  the table, entry against later entry.
\<close>

fun no_clash :: "(pystr \<times> pystr list) list \<Rightarrow> bool" where
  "no_clash [] = True"
| "no_clash (e # es) =
     ((\<forall>e' \<in> set es. fst e' = fst e \<or> (\<forall>k \<in> set (snd e). k \<notin> set (snd e'))) \<and> no_clash es)"

text \<open>
  The code points on which \<open>lower_cp\<close> and \<open>upper_cp\<close> are Python's case mapping: ASCII
  and the Cyrillic block U+0400..U+045F.
\<close>

definition modelled_cp :: "nat \<Rightarrow> bool" where
  "modelled_cp c \<longleftrightarrow> c < 128 \<or> (1024 \<le> c \<and> c \<le> 1119)"

text \<open>A string that \<open>strip\<close> leaves as it is: empty, or with no white space at either end.\<close>

definition trimmed :: "pystr \<Rightarrow> bool" where
  "trimmed s \<longleftrightarrow> s = [] \<or> (\<not> is_space (hd s) \<and> \<not> is_space (last s))"

text \<open>
  The calls a client can make, and the calculator each of them leaves behind, whether it
  returns or raises.
\<close>

datatype call =
    SetValue pystr real
  | GetValue pystr
  | CalculateOperationalCF
  | CalculateInvestingCF
  | CalculateFinancingCF
  | CalculateCash

fun exec :: "call \<Rightarrow> FinancialCalculator \<Rightarrow> FinancialCalculator" where
  "exec (SetValue name v) c = snd (set_value name v c)"
| "exec (GetValue name) c = c"
| "exec CalculateOperationalCF c = snd (calculate_operational_cf c)"
| "exec CalculateInvestingCF c = snd (calculate_investing_cf c)"
| "exec CalculateFinancingCF c = snd (calculate_financing_cf c)"
| "exec CalculateCash c = snd (calculate_cash c)"

definition run :: "call list \<Rightarrow> FinancialCalculator \<Rightarrow> FinancialCalculator" where
  "run cs c = fold exec cs c"

text \<open>The four keys under which the formulas store their results.\<close>

definition reserved_keys :: "pystr list" where
  "reserved_keys =
     [ascii ''operation_cf'', ascii ''investing_cf'', ascii ''financing_cf'', ascii ''cash'']"

text \<open>
  \<open>raw_alias c k\<close>: \<open>k\<close> is a key of the alias index that stands for an id other than
  itself, that is, an alias that has not been resolved.
\<close>

definition raw_alias :: "FinancialCalculator \<Rightarrow> pystr \<Rightarrow> bool" where
  "raw_alias c k = (case alias_map c k of None \<Rightarrow> False | Some i \<Rightarrow> i \<noteq> k)"

text \<open>
  The invariant of the value store: a key is an id of the registry or a reserved key, and
  no key but the reserved key \<open>cash\<close> is an unresolved alias.
\<close>

definition store_inv :: "FinancialCalculator \<Rightarrow> bool" where
  "store_inv c \<longleftrightarrow>
     (\<forall>k \<in> dom (data c).
        (k \<in> dom (registry c) \<or> k \<in> set reserved_keys)
        \<and> (raw_alias c k \<longrightarrow> k = ascii ''cash''))"

text \<open>
  The amount \<open>get_value\<close> returns when it returns: 0.0 for a name that does not resolve
  and for an id with nothing stored.
\<close>

definition stored_amount :: "pystr \<Rightarrow> FinancialCalculator \<Rightarrow> real" where
  "stored_amount name c =
     (let canonical_id = resolve_name c name in
      if falsy canonical_id then 0
      else (case data c (the canonical_id) of None \<Rightarrow> 0 | Some v \<Rightarrow> v))"

text \<open>The spellings an indicator is known by: its id, its display name, its aliases.\<close>

definition names_of :: "Indicator \<Rightarrow> pystr list" where
  "names_of ind = id_of ind # display_name ind # aliases ind"

text \<open>
  \<open>recased s t\<close>: \<open>t\<close> is \<open>s\<close> with the case of any of its letters changed, that is, each
  code point kept, lowered or raised.
\<close>

definition recased :: "pystr \<Rightarrow> pystr \<Rightarrow> bool" where
  "recased s t \<longleftrightarrow> list_all2 (\<lambda>c d. d = c \<or> d = lower_cp c \<or> d = upper_cp c) s t"

section \<open>Comparing string literals\<close>

lemma ascii_inject: "ascii s = ascii t \<longleftrightarrow> s = t"
  unfolding ascii_def by (rule inj_map_eq_map) (simp add: inj_on_def)

lemma of_char_less_256: "(of_char c :: nat) < 256"
  by (cases c) (simp add: of_char_def)

lemma ascii_neq_wide:
  assumes "256 \<le> x"
  shows "(ascii s = x # xs) = False" and "(x # xs = ascii s) = False"
proof -
  have ne: "of_char c \<noteq> x" for c :: char
    using assms of_char_less_256 [of c] by arith
  show "(ascii s = x # xs) = False"
    using ne by (cases s) (auto simp: ascii_def)
  then show "(x # xs = ascii s) = False"
    by (simp add: eq_commute)
qed

lemma ascii_Nil: "(ascii s = []) = (s = [])" "([] = ascii s) = (s = [])"
  by (auto simp: ascii_def)

lemmas key_eq_simps =
  ascii_inject ascii_neq_wide ascii_Nil list.inject list.distinct char.inject
  numeral_eq_iff num.distinct num.inject numeral_le_iff le_num_simps simp_thms

section \<open>Properties of \<open>lower\<close> and \<open>strip\<close>\<close>

lemma lower_cp_cases:
  "lower_cp c = c \<or> (65 \<le> c \<and> c \<le> 90 \<and> lower_cp c = c + 32)
     \<or> (1040 \<le> c \<and> c \<le> 1071 \<and> lower_cp c = c + 32)
     \<or> (1024 \<le> c \<and> c \<le> 1039 \<and> lower_cp c = c + 80)"
  by (simp add: lower_cp_def)

lemma upper_cp_cases:
  "upper_cp c = c \<or> (97 \<le> c \<and> c \<le> 122 \<and> upper_cp c = c - 32)
     \<or> (1072 \<le> c \<and> c \<le> 1103 \<and> upper_cp c = c - 32)
     \<or> (1104 \<le> c \<and> c \<le> 1119 \<and> upper_cp c = c - 80)"
  by (simp add: upper_cp_def)

lemma lower_cp_small: "97 \<le> c \<Longrightarrow> c \<le> 122 \<Longrightarrow> lower_cp c = c"
  and lower_cp_small_cyr: "1072 \<le> c \<Longrightarrow> c \<le> 1119 \<Longrightarrow> lower_cp c = c"
  and lower_cp_cap: "65 \<le> c \<Longrightarrow> c \<le> 90 \<Longrightarrow> lower_cp c = c + 32"
  and lower_cp_cap_cyr: "1040 \<le> c \<Longrightarrow> c \<le> 1071 \<Longrightarrow> lower_cp c = c + 32"
  and lower_cp_cap_cyr': "1024 \<le> c \<Longrightarrow> c \<le> 1039 \<Longrightarrow> lower_cp c = c + 80"
  by (simp_all add: lower_cp_def)

lemma letter_not_space:
  "65 \<le> c \<Longrightarrow> c \<le> 122 \<Longrightarrow> \<not> is_space c"
  "1024 \<le> c \<Longrightarrow> c \<le> 1119 \<Longrightarrow> \<not> is_space c"
  by (simp_all add: is_space_def)

lemma lower_cp_idem: "lower_cp (lower_cp c) = lower_cp c"
  using lower_cp_cases [of c]
  by (auto simp: lower_cp_small lower_cp_small_cyr)

lemma lower_cp_upper_cp: "lower_cp (upper_cp c) = lower_cp c"
  using upper_cp_cases [of c]
  by (auto simp: lower_cp_small lower_cp_small_cyr lower_cp_cap lower_cp_cap_cyr lower_cp_cap_cyr')

lemma is_space_lower_cp: "is_space (lower_cp c) = is_space c"
  using lower_cp_cases [of c] by (auto simp: letter_not_space)

lemma lower_cp_space: "is_space c \<Longrightarrow> lower_cp c = c"
  using lower_cp_cases [of c] by (auto simp: letter_not_space)

lemma lower_idem: "lower (lower s) = lower s"
  by (simp add: lower_def lower_cp_idem)

lemma lower_append: "lower (s @ t) = lower s @ lower t"
  by (simp add: lower_def)

lemma lower_spaces: "list_all is_space ws \<Longrightarrow> lower ws = ws"
  by (induction ws) (simp_all add: lower_def lower_cp_space)

lemma lower_recased: "recased s t \<Longrightarrow> lower t = lower s"
  unfolding recased_def lower_def
  by (induction s t rule: list_all2_induct) (auto simp: lower_cp_idem lower_cp_upper_cp)

lemma strip_lower: "strip (lower s) = lower (strip s)"
  by (simp add: strip_def lower_def dropWhile_map rev_map comp_def is_space_lower_cp)

lemma dropWhile_spaces: "list_all is_space ws \<Longrightarrow> dropWhile is_space (ws @ s) = dropWhile is_space s"
  by (induction ws) simp_all

lemma strip_pad_right:
  assumes "list_all is_space ws"
  shows "strip (s @ ws) = strip s"
proof (cases "\<forall>x \<in> set s. is_space x")
  case True
  then have "\<forall>x \<in> set (s @ ws). is_space x"
    using assms by (auto simp: list_all_iff)
  then have "dropWhile is_space (s @ ws) = []"
    unfolding dropWhile_eq_Nil_conv .
  moreover have "dropWhile is_space s = []"
    using True unfolding dropWhile_eq_Nil_conv .
  ultimately show ?thesis by (simp only: strip_def)
next
  case False
  then obtain x where "x \<in> set s" and "\<not> is_space x" by blast
  then have "dropWhile is_space (s @ ws) = dropWhile is_space s @ ws"
    by (rule dropWhile_append1)
  moreover have "list_all is_space (rev ws)"
    using assms by (simp add: list_all_iff)
  ultimately show ?thesis
    by (simp add: strip_def dropWhile_spaces)
qed

lemma strip_pad:
  assumes "list_all is_space ws1" and "list_all is_space ws2"
  shows "strip (ws1 @ s @ ws2) = strip s"
proof -
  have "strip (ws1 @ s @ ws2) = strip (s @ ws2)"
    using assms(1) by (simp add: strip_def dropWhile_spaces)
  then show ?thesis
    using assms(2) by (simp add: strip_pad_right)
qed

lemma strip_trimmed:
  assumes "trimmed s"
  shows "strip s = s"
proof (cases "s = []")
  case True
  then show ?thesis by (simp add: strip_def)
next
  case False
  with assms have "\<not> is_space (hd s)" and "\<not> is_space (hd (rev s))"
    by (simp_all add: trimmed_def hd_rev)
  then have "dropWhile is_space s = s" and "dropWhile is_space (rev s) = rev s"
    by (simp_all add: dropWhile_eq_self_iff)
  then show ?thesis by (simp add: strip_def)
qed

lemma last_dropWhile: "dropWhile P xs \<noteq> [] \<Longrightarrow> last (dropWhile P xs) = last xs"
  by (induction xs) (auto split: if_splits)

lemma trimmed_strip: "trimmed (strip s)"
proof (cases "strip s = []")
  case True
  then show ?thesis by (simp add: trimmed_def)
next
  case False
  define y where "y = dropWhile is_space s"
  define w where "w = dropWhile is_space (rev y)"
  have s: "strip s = rev w" by (simp add: strip_def y_def w_def)
  with False have w: "w \<noteq> []" by simp
  then have y: "y \<noteq> []" by (auto simp: w_def)
  have "\<not> is_space (hd w)"
    using w unfolding w_def by (rule hd_dropWhile)
  moreover have "last w = last (rev y)"
    using w unfolding w_def by (rule last_dropWhile)
  moreover have "\<not> is_space (hd y)"
    using y unfolding y_def by (rule hd_dropWhile)
  ultimately show ?thesis
    using w y by (simp add: trimmed_def s hd_rev last_rev)
qed

lemma strip_idem: "strip (strip s) = strip s"
  by (rule strip_trimmed) (rule trimmed_strip)

lemma trimmed_lower: "trimmed s \<Longrightarrow> trimmed (lower s)"
  by (cases "s = []") (simp_all add: trimmed_def lower_def hd_map last_map is_space_lower_cp)

section \<open>What the constructor builds\<close>

lemma fold_upd_const:
  "fold (\<lambda>a m. m(a \<mapsto> i)) as m k = (if k \<in> set as then Some i else m k)"
  by (induction as arbitrary: m) auto

lemma alias_map_reg:
  "alias_map (reg i n as c) k =
     (if k \<in> set (entry_keys (i, n, as)) then Some i else alias_map c k)"
  by (auto simp: reg_def Indicator_init_def entry_keys_def fold_upd_const Let_def)

lemma registry_reg: "registry (reg i n as c) = (registry c)(i \<mapsto> Indicator_init i n as)"
  by (simp add: reg_def Let_def)

lemma data_reg: "data (reg i n as c) = data c"
  by (simp add: reg_def Let_def)

lemma find_app:
  "find P (xs @ ys) = (case find P xs of None \<Rightarrow> find P ys | Some x \<Rightarrow> Some x)"
  by (induction xs) auto

lemma alias_map_fold_reg:
  "alias_map (fold (\<lambda>(i, n, as). reg i n as) es c) k =
     (case lookup_keys (map (\<lambda>e. (fst e, entry_keys e)) es) k of
        Some i \<Rightarrow> Some i | None \<Rightarrow> alias_map c k)"
proof (induction es arbitrary: c)
  case Nil
  show ?case by (simp add: lookup_keys_def)
next
  case (Cons e es)
  obtain i n as where e: "e = (i, n, as)" by (cases e) auto
  show ?case
    by (simp add: Cons.IH e alias_map_reg lookup_keys_def find_app rev_map split: option.splits)
qed

lemma data_fold_reg: "data (fold (\<lambda>(i, n, as). reg i n as) es c) = data c"
  by (induction es arbitrary: c) (auto simp: data_reg)

lemma registry_fold_reg_Some:
  "registry (fold (\<lambda>(i, n, as). reg i n as) es c) k = Some ind \<Longrightarrow>
     registry c k = Some ind \<or> (\<exists>n as. (k, n, as) \<in> set es \<and> ind = Indicator_init k n as)"
proof (induction es arbitrary: c)
  case Nil
  then show ?case by simp
next
  case (Cons e es)
  obtain i n as where e: "e = (i, n, as)" by (cases e) auto
  from Cons.prems have "registry (fold (\<lambda>(i, n, as). reg i n as) es (reg i n as c)) k = Some ind"
    by (simp add: e)
  from Cons.IH [OF this] show ?case
    by (auto simp: e registry_reg split: if_splits)
qed

lemma registry_fold_reg_distinct:
  "distinct (map fst es) \<Longrightarrow> (i, n, as) \<in> set es \<Longrightarrow>
     registry (fold (\<lambda>(i, n, as). reg i n as) es c) i = Some (Indicator_init i n as)"
proof (induction es arbitrary: c)
  case Nil
  then show ?case by simp
next
  case (Cons e es)
  obtain i' n' as' where e: "e = (i', n', as')" by (cases e) auto
  have keep: "registry (fold (\<lambda>(i, n, as). reg i n as) es c') k = registry c' k"
    if "k \<notin> fst ` set es" for c' k
    using that by (induction es arbitrary: c') (auto simp: registry_reg)
  show ?case
  proof (cases "(i, n, as) \<in> set es")
    case True
    with Cons show ?thesis by (simp add: e)
  next
    case False
    with Cons.prems have eq: "(i, n, as) = (i', n', as')" and "i \<notin> fst ` set es"
      by (auto simp: e)
    then show ?thesis by (simp add: e keep registry_reg)
  qed
qed

subsection \<open>Looking a key up in the table\<close>

lemma lookup_keys_None: "(\<forall>e \<in> set tbl. k \<notin> set (snd e)) \<Longrightarrow> lookup_keys tbl k = None"
  by (auto simp: lookup_keys_def find_None_iff)

lemma find_Some_set: "find P xs = Some x \<Longrightarrow> x \<in> set xs \<and> P x"
  by (induction xs) (auto split: if_splits)

lemma lookup_keys_Some_fst: "lookup_keys tbl k = Some i \<Longrightarrow> i \<in> fst ` set tbl"
  by (force simp: lookup_keys_def dest!: find_Some_set)

lemma no_clash_pair:
  "no_clash tbl \<Longrightarrow> e \<in> set tbl \<Longrightarrow> e' \<in> set tbl \<Longrightarrow> k \<in> set (snd e) \<Longrightarrow>
     k \<in> set (snd e') \<Longrightarrow> fst e = fst e'"
proof (induction tbl)
  case Nil
  then show ?case by simp
next
  case (Cons a tbl)
  from Cons.prems(1) have head: "\<forall>x \<in> set tbl. fst x = fst a \<or> (\<forall>k \<in> set (snd a). k \<notin> set (snd x))"
    and tail: "no_clash tbl" by simp_all
  consider "e = a" "e' = a" | "e = a" "e' \<in> set tbl" | "e \<in> set tbl" "e' = a"
    | "e \<in> set tbl" "e' \<in> set tbl"
    using Cons.prems(2,3) by auto
  then show ?case
  proof cases
    case 1
    then show ?thesis by simp
  next
    case 2
    with head Cons.prems(4,5) show ?thesis by force
  next
    case 3
    with head Cons.prems(4,5) show ?thesis by force
  next
    case 4
    show ?thesis by (rule Cons.IH [OF tail 4 Cons.prems(4,5)])
  qed
qed

lemma lookup_keys_no_clash:
  assumes "no_clash tbl" and "e \<in> set tbl" and "k \<in> set (snd e)"
  shows "lookup_keys tbl k = Some (fst e)"
proof -
  have "\<exists>x. x \<in> set (rev tbl) \<and> k \<in> set (snd x)"
    using assms(2,3) by (intro exI [of _ e]) simp
  then have "find (\<lambda>e. k \<in> set (snd e)) (rev tbl) \<noteq> None"
    unfolding find_None_iff by blast
  then obtain e' where f: "find (\<lambda>e. k \<in> set (snd e)) (rev tbl) = Some e'" by blast
  then have "e' \<in> set tbl" and "k \<in> set (snd e')"
    by (auto dest: find_Some_set)
  with assms have "fst e = fst e'" by (blast intro: no_clash_pair)
  with f show ?thesis by (simp add: lookup_keys_def)
qed

subsection \<open>The key table of the catalogue\<close>

lemma alias_keys_catalog: "map (\<lambda>e. (fst e, entry_keys e)) catalog = alias_keys"
  unfolding catalog_def alias_keys_def list.map list.inject
  apply (intro conjI)
  apply (simp_all add: entry_keys_def ascii_def lower_def lower_cp_def strip_def is_space_def)
  done

lemma no_clash_alias_keys: "no_clash alias_keys"
  unfolding alias_keys_def no_clash.simps list.set ball_simps fst_conv snd_conv
  apply (intro conjI)
  apply (simp_all only: key_eq_simps insert_iff empty_iff de_Morgan_disj)
  done

subsection \<open>The fresh calculator\<close>

lemma alias_map_init: "alias_map FinancialCalculator_init k = lookup_keys alias_keys k"
  by (simp add: FinancialCalculator_init_def initialize_registry_def alias_map_fold_reg
      alias_keys_catalog split: option.splits)

lemma data_init: "data FinancialCalculator_init = Map.empty"
  by (simp add: FinancialCalculator_init_def initialize_registry_def data_fold_reg)

lemma distinct_catalog_ids: "distinct (map fst catalog)"
  unfolding catalog_def list.map fst_conv distinct.simps list.set
  by (simp only: key_eq_simps insert_iff empty_iff de_Morgan_disj)

lemma registry_init_catalog:
  "(i, n, as) \<in> set catalog \<Longrightarrow>
     registry FinancialCalculator_init i = Some (Indicator_init i n as)"
  by (simp add: FinancialCalculator_init_def initialize_registry_def
      registry_fold_reg_distinct distinct_catalog_ids)

lemma registry_init_Some:
  "registry FinancialCalculator_init k = Some ind \<Longrightarrow>
     \<exists>n as. (k, n, as) \<in> set catalog \<and> ind = Indicator_init k n as"
  unfolding FinancialCalculator_init_def initialize_registry_def
  by (drule registry_fold_reg_Some) simp

lemma alias_keys_ids: "fst ` set alias_keys = fst ` set catalog"
  unfolding alias_keys_catalog [symmetric] by (simp add: image_image)

lemma alias_map_init_registered:
  "alias_map FinancialCalculator_init k = Some i \<Longrightarrow> i \<in> dom (registry FinancialCalculator_init)"
proof -
  assume "alias_map FinancialCalculator_init k = Some i"
  then have "i \<in> fst ` set catalog"
    using lookup_keys_Some_fst [of alias_keys k i] by (simp add: alias_map_init alias_keys_ids)
  then obtain n as where "(i, n, as) \<in> set catalog" by force
  then show ?thesis by (auto dest: registry_init_catalog)
qed

lemma catalog_ids_nonempty: "\<forall>e \<in> set catalog. fst e \<noteq> []"
  unfolding catalog_def list.set ball_simps fst_conv
  by (simp only: key_eq_simps)

lemma catalog_trimmed: "\<forall>e \<in> set catalog. trimmed (fst e) \<and> trimmed (fst (snd e))"
  unfolding catalog_def list.set ball_simps fst_conv snd_conv
  apply (intro conjI)
  apply (simp_all add: trimmed_def ascii_def is_space_def)
  done

text \<open>
  Every code point of every id, display name and alias of the catalogue lies in the two
  blocks on which the model of \<open>str.lower\<close> and \<open>str.upper\<close> is exact.
\<close>

lemma catalog_code_points:
  "\<forall>e \<in> set catalog. list_all modelled_cp (fst e @ fst (snd e) @ concat (snd (snd e)))"
  unfolding catalog_def list.set ball_simps fst_conv snd_conv
  apply (intro conjI)
  apply (simp_all add: ascii_def modelled_cp_def)
  done

lemma resolve_init_SomeI:
  assumes "strip (lower name) = k" and "\<exists>e \<in> set alias_keys. fst e = i \<and> k \<in> set (snd e)"
  shows "resolve_name FinancialCalculator_init name = Some i"
  using assms lookup_keys_no_clash [OF no_clash_alias_keys]
  by (auto simp: resolve_name_def alias_map_init)

lemma resolve_init_NoneI:
  assumes "strip (lower name) = k" and "\<forall>e \<in> set alias_keys. k \<notin> set (snd e)"
  shows "resolve_name FinancialCalculator_init name = None"
  using assms by (simp add: resolve_name_def alias_map_init lookup_keys_None)

lemmas norm_simps = ascii_def lower_def lower_cp_def strip_def is_space_def

lemmas table_simps = bex_simps ball_simps list.set fst_conv snd_conv insert_iff empty_iff
  de_Morgan_disj key_eq_simps

lemma norm_names:
  "strip (lower (ascii ''net_income'')) = ascii ''net_income''"
  "strip (lower (ascii ''depreciation_expence'')) = ascii ''depreciation_expence''"
  "strip (lower (ascii ''net_accounts_receivable'')) = ascii ''net_accounts_receivable''"
  "strip (lower (ascii ''inventory'')) = ascii ''inventory''"
  "strip (lower (ascii ''other_current_assets'')) = ascii ''other_current_assets''"
  "strip (lower (ascii ''gain_loss_on_disposal_of_PPE'')) = ascii ''gain_loss_on_disposal_of_ppe''"
  "strip (lower (ascii ''other_non_current_assets'')) = ascii ''other_non_current_assets''"
  "strip (lower (ascii ''other_equity'')) = ascii ''other_equity''"
  "strip (lower (ascii ''contributed_capital'')) = ascii ''contributed_capital''"
  "strip (lower (ascii ''dividends'')) = ascii ''dividends''"
  "strip (lower (ascii ''NetPPE'')) = ascii ''netppe''"
  "strip (lower (ascii ''NCL'')) = ascii ''ncl''"
  "strip (lower (ascii ''NI'')) = ascii ''ni''"
  "strip (lower (ascii ''cash'')) = ascii ''cash''"
  "strip (lower [55296]) = [55296]"
  "strip (lower [55357]) = [55357]"
  "strip (lower (ascii ''current_liabilities'')) = ascii ''current_liabilities''"
  "strip (lower (ascii ''depreciation_expense'')) = ascii ''depreciation_expense''"
  "strip (lower (ascii ''net_property_plant_equipment'')) = ascii ''net_property_plant_equipment''"
  "strip (lower (ascii ''non_current_liabilities'')) = ascii ''non_current_liabilities''"
  "strip (lower (ascii ''operation_cf'')) = ascii ''operation_cf''"
  "strip (lower (ascii ''investing_cf'')) = ascii ''investing_cf''"
  "strip (lower (ascii ''financing_cf'')) = ascii ''financing_cf''"
  "strip (lower (ascii ''not_a_real_name'')) = ascii ''not_a_real_name''"
  by (simp_all add: norm_simps)

lemma resolve_init_known:
  "resolve_name FinancialCalculator_init (ascii ''net_income'') = Some (ascii ''net_income'')"
  "resolve_name FinancialCalculator_init (ascii ''depreciation_expence'') =
     Some (ascii ''depreciation_expence'')"
  "resolve_name FinancialCalculator_init (ascii ''net_accounts_receivable'') =
     Some (ascii ''net_accounts_receivable'')"
  "resolve_name FinancialCalculator_init (ascii ''inventory'') = Some (ascii ''inventory'')"
  "resolve_name FinancialCalculator_init (ascii ''other_current_assets'') =
     Some (ascii ''other_current_assets'')"
  "resolve_name FinancialCalculator_init (ascii ''gain_loss_on_disposal_of_PPE'') =
     Some (ascii ''gain_loss_on_disposal_of_PPE'')"
  "resolve_name FinancialCalculator_init (ascii ''other_non_current_assets'') =
     Some (ascii ''other_non_current_assets'')"
  "resolve_name FinancialCalculator_init (ascii ''other_equity'') = Some (ascii ''other_equity'')"
  "resolve_name FinancialCalculator_init (ascii ''contributed_capital'') =
     Some (ascii ''contributed_capital'')"
  "resolve_name FinancialCalculator_init (ascii ''dividends'') = Some (ascii ''dividends'')"
  "resolve_name FinancialCalculator_init (ascii ''NetPPE'') =
     Some (ascii ''net_property, plant & equipment'')"
  "resolve_name FinancialCalculator_init (ascii ''NCL'') = Some (ascii ''non-current liabilities'')"
  "resolve_name FinancialCalculator_init (ascii ''NI'') = Some (ascii ''net_income'')"
  "resolve_name FinancialCalculator_init (ascii ''cash'') = Some (ascii ''Cash'')"
  by (rule resolve_init_SomeI, rule norm_names, simp only: alias_keys_def table_simps)+

lemma resolve_init_unknown:
  "resolve_name FinancialCalculator_init (ascii ''current_liabilities'') = None"
  "resolve_name FinancialCalculator_init (ascii ''depreciation_expense'') = None"
  "resolve_name FinancialCalculator_init (ascii ''net_property_plant_equipment'') = None"
  "resolve_name FinancialCalculator_init (ascii ''non_current_liabilities'') = None"
  "resolve_name FinancialCalculator_init (ascii ''operation_cf'') = None"
  "resolve_name FinancialCalculator_init (ascii ''investing_cf'') = None"
  "resolve_name FinancialCalculator_init (ascii ''financing_cf'') = None"
  "resolve_name FinancialCalculator_init (ascii ''not_a_real_name'') = None"
  "resolve_name FinancialCalculator_init [55296] = None"
  "resolve_name FinancialCalculator_init [55357] = None"
  by (rule resolve_init_NoneI, rule norm_names, simp only: alias_keys_def table_simps)+

section \<open>The operations\<close>

lemma falsy_simps: "falsy None" "falsy (Some s) \<longleftrightarrow> s = []"
  by (simp_all add: falsy_def)

subsection \<open>What standard output encodes\<close>

lemma stdout_encodes_simps:
  "stdout_encodes []"
  "stdout_encodes (c # s) \<longleftrightarrow> (c < 55296 \<or> 57343 < c) \<and> stdout_encodes s"
  "stdout_encodes (s @ t) \<longleftrightarrow> stdout_encodes s \<and> stdout_encodes t"
  by (simp_all add: stdout_encodes_def)

lemma stdout_encodes_ascii: "stdout_encodes (ascii s)"
proof -
  have "(of_char c :: nat) < 55296" for c :: char
    using of_char_less_256 [of c] by arith
  then show ?thesis by (simp add: stdout_encodes_def ascii_def list_all_iff)
qed

lemma stdout_encodes_warning:
  "stdout_encodes (unknown_indicator_warning name) = stdout_encodes name"
  by (simp add: unknown_indicator_warning_def stdout_encodes_simps stdout_encodes_ascii)

lemma stdout_encodes_set_message:
  "stdout_encodes (set_message d cid) \<longleftrightarrow> stdout_encodes d \<and> stdout_encodes cid"
  by (simp add: set_message_def stdout_encodes_simps stdout_encodes_ascii)

lemma stdout_encodes_modelled: "list_all modelled_cp s \<Longrightarrow> stdout_encodes s"
  by (induction s) (auto simp: stdout_encodes_simps modelled_cp_def)

subsection \<open>Reading\<close>

lemma get_value_cases:
  "get_value name c =
     (if falsy (resolve_name c name) \<and> \<not> stdout_encodes name then Inl UnicodeEncodeError
      else Inr (stored_amount name c))"
  by (simp add: get_value_def stored_amount_def py_print_def stdout_encodes_warning Let_def)

lemma get_value_ascii: "get_value (ascii s) c = Inr (stored_amount (ascii s) c)"
  by (simp add: get_value_cases stdout_encodes_ascii)

lemma get_value_unresolved:
  "resolve_name c name = None \<Longrightarrow> stdout_encodes name \<Longrightarrow> get_value name c = Inr 0"
  by (simp add: get_value_cases stored_amount_def falsy_simps)

lemma get_value_unresolved_raises:
  "resolve_name c name = None \<Longrightarrow> \<not> stdout_encodes name \<Longrightarrow>
     get_value name c = Inl UnicodeEncodeError"
  by (simp add: get_value_cases falsy_simps)

lemma get_value_resolved:
  "resolve_name c name = Some cid \<Longrightarrow> cid \<noteq> [] \<Longrightarrow>
     get_value name c = Inr (case data c cid of None \<Rightarrow> 0 | Some v \<Rightarrow> v)"
  by (simp add: get_value_cases stored_amount_def falsy_simps)

text \<open>\<open>get_value\<close> raises exactly on an unresolved name that cannot be printed.\<close>

lemma get_value_raises_iff:
  "(\<exists>e. get_value name c = Inl e) \<longleftrightarrow> falsy (resolve_name c name) \<and> \<not> stdout_encodes name"
  by (simp add: get_value_cases)

subsection \<open>Writing\<close>

lemma set_value_unresolved:
  "resolve_name c name = None \<Longrightarrow>
     set_value name v c = (Inl (ValueError (unknown_indicator_message name)), c)"
  by (simp add: set_value_def falsy_simps)

lemma set_value_resolved:
  "resolve_name c name = Some cid \<Longrightarrow> cid \<noteq> [] \<Longrightarrow> registry c cid = Some ind \<Longrightarrow>
     stdout_encodes (display_name ind) \<Longrightarrow> stdout_encodes cid \<Longrightarrow>
     set_value name v c = (Inr (), c\<lparr>data := (data c)(cid \<mapsto> v)\<rparr>)"
  by (simp add: set_value_def falsy_simps Let_def py_print_def stdout_encodes_set_message)

lemma set_value_fixed [simp]:
  "alias_map (snd (set_value name v c)) = alias_map c"
  "registry (snd (set_value name v c)) = registry c"
  by (simp_all add: set_value_def Let_def split: option.splits)

lemma data_set_value:
  "data (snd (set_value name v c)) =
     (if falsy (resolve_name c name) then data c
      else (data c)(the (resolve_name c name) \<mapsto> v))"
  by (simp add: set_value_def Let_def split: option.splits)

subsection \<open>The formulas never raise\<close>

text \<open>
  Every name a formula reads is an ASCII literal, which standard output encodes, so each
  formula returns its total and stores it.
\<close>

lemma calculate_operational_cf_eq:
  "calculate_operational_cf c =
     (Inr (stored_amount (ascii ''net_income'') c + stored_amount (ascii ''depreciation_expence'') c
           + stored_amount (ascii ''net_accounts_receivable'') c
           - stored_amount (ascii ''inventory'') c
           - stored_amount (ascii ''other_current_assets'') c
           + stored_amount (ascii ''current_liabilities'') c
           - stored_amount (ascii ''gain_loss_on_disposal_of_PPE'') c),
      c\<lparr>data := (data c)(ascii ''operation_cf'' \<mapsto>
           stored_amount (ascii ''net_income'') c + stored_amount (ascii ''depreciation_expence'') c
           + stored_amount (ascii ''net_accounts_receivable'') c
           - stored_amount (ascii ''inventory'') c
           - stored_amount (ascii ''other_current_assets'') c
           + stored_amount (ascii ''current_liabilities'') c
           - stored_amount (ascii ''gain_loss_on_disposal_of_PPE'') c)\<rparr>)"
  by (simp add: calculate_operational_cf_def get_value_ascii Let_def)

lemma calculate_investing_cf_eq:
  "calculate_investing_cf c =
     (Inr (- stored_amount (ascii ''net_property_plant_equipment'') c
           + stored_amount (ascii ''gain_loss_on_disposal_of_PPE'') c
           + stored_amount (ascii ''depreciation_expence'') c
           - stored_amount (ascii ''other_non_current_assets'') c
           + stored_amount (ascii ''other_equity'') c),
      c\<lparr>data := (data c)(ascii ''investing_cf'' \<mapsto>
           - stored_amount (ascii ''net_property_plant_equipment'') c
           + stored_amount (ascii ''gain_loss_on_disposal_of_PPE'') c
           + stored_amount (ascii ''depreciation_expence'') c
           - stored_amount (ascii ''other_non_current_assets'') c
           + stored_amount (ascii ''other_equity'') c)\<rparr>)"
  by (simp add: calculate_investing_cf_def get_value_ascii Let_def)

lemma calculate_financing_cf_eq:
  "calculate_financing_cf c =
     (Inr (stored_amount (ascii ''non_current_liabilities'') c
           + stored_amount (ascii ''contributed_capital'') c
           - stored_amount (ascii ''dividends'') c),
      c\<lparr>data := (data c)(ascii ''financing_cf'' \<mapsto>
           stored_amount (ascii ''non_current_liabilities'') c
           + stored_amount (ascii ''contributed_capital'') c
           - stored_amount (ascii ''dividends'') c)\<rparr>)"
  by (simp add: calculate_financing_cf_def get_value_ascii Let_def)

lemma calculate_cash_eq:
  "calculate_cash c =
     (Inr (stored_amount (ascii ''operation_cf'') c + stored_amount (ascii ''investing_cf'') c
           + stored_amount (ascii ''financing_cf'') c),
      c\<lparr>data := (data c)(ascii ''cash'' \<mapsto>
           stored_amount (ascii ''operation_cf'') c + stored_amount (ascii ''investing_cf'') c
           + stored_amount (ascii ''financing_cf'') c)\<rparr>)"
  by (simp add: calculate_cash_def get_value_ascii Let_def)

lemmas calculate_eq =
  calculate_operational_cf_eq calculate_investing_cf_eq calculate_financing_cf_eq
  calculate_cash_eq

lemma calculate_fixed [simp]:
  "alias_map (snd (calculate_operational_cf c)) = alias_map c"
  "registry (snd (calculate_operational_cf c)) = registry c"
  "alias_map (snd (calculate_investing_cf c)) = alias_map c"
  "registry (snd (calculate_investing_cf c)) = registry c"
  "alias_map (snd (calculate_financing_cf c)) = alias_map c"
  "registry (snd (calculate_financing_cf c)) = registry c"
  "alias_map (snd (calculate_cash c)) = alias_map c"
  "registry (snd (calculate_cash c)) = registry c"
  by (simp_all add: calculate_eq)

lemma exec_fixed [simp]:
  "alias_map (exec x c) = alias_map c" "registry (exec x c) = registry c"
  by (cases x; simp)+

lemma run_fixed [simp]:
  "alias_map (run cs c) = alias_map c" "registry (run cs c) = registry c"
  unfolding run_def by (induction cs arbitrary: c; simp)+

lemma resolve_name_cong: "alias_map c = alias_map c' \<Longrightarrow> resolve_name c name = resolve_name c' name"
  by (simp add: resolve_name_def)

lemma resolve_name_run [simp]: "resolve_name (run cs c) name = resolve_name c name"
  by (simp add: resolve_name_def)

lemma resolve_name_fixed [simp]:
  "resolve_name (snd (set_value n v c)) name = resolve_name c name"
  "resolve_name (snd (calculate_operational_cf c)) name = resolve_name c name"
  "resolve_name (snd (calculate_investing_cf c)) name = resolve_name c name"
  "resolve_name (snd (calculate_financing_cf c)) name = resolve_name c name"
  "resolve_name (snd (calculate_cash c)) name = resolve_name c name"
  "resolve_name (exec x c) name = resolve_name c name"
  by (simp_all add: resolve_name_def)

lemma run_simps: "run [] c = c" "run (x # cs) c = run cs (exec x c)"
  by (simp_all add: run_def)

lemma run_snoc: "run (cs @ [x]) c = exec x (run cs c)"
  by (simp add: run_def)

lemmas eval_simps =
  run_simps exec.simps stored_amount_def falsy_simps resolve_init_known resolve_init_unknown
  data_set_value data_init ascii_inject ascii_Nil Let_def

section \<open>Reads and writes\<close>

text \<open>
  When the name does not resolve and standard output can encode it, the write fails with
  the \<open>ValueError\<close> that quotes the name and the read returns 0.0.
\<close>

lemma unknown_name_asymmetry:
  assumes "resolve_name c name = None" and "stdout_encodes name"
  shows "fst (set_value name v c) = Inl (ValueError (unknown_indicator_message name))
         \<and> get_value name c = Inr 0"
  using assms by (simp add: set_value_unresolved get_value_unresolved)

lemma unknown_name_asymmetry_example:
  "fst (set_value (ascii ''not_a_real_name'') 1 FinancialCalculator_init)
       = Inl (ValueError (ascii ''Unknown indicator name: '' @ [39] @ ascii ''not_a_real_name'' @ [39]))
   \<and> get_value (ascii ''not_a_real_name'') FinancialCalculator_init = Inr 0"
  using unknown_name_asymmetry [OF resolve_init_unknown(8) stdout_encodes_ascii, of 1]
  by (simp add: unknown_indicator_message_def)

text \<open>
  C5. For every name that does not resolve, \<open>set_value\<close> is to fail with the error that
  carries the name and \<open>get_value\<close> is to return 0.0 without raising. The name made of
  the lone surrogate U+D800 does not resolve; \<open>set_value\<close> raises the \<open>ValueError\<close> that
  quotes it, and \<open>get_value\<close> raises \<open>UnicodeEncodeError\<close> from its warning.
\<close>

theorem unknown_name_read_raises:
  "resolve_name FinancialCalculator_init [55296] = None
   \<and> fst (set_value [55296] 1 FinancialCalculator_init)
       = Inl (ValueError (unknown_indicator_message [55296]))
   \<and> get_value [55296] FinancialCalculator_init = Inl UnicodeEncodeError"
  by (simp add: resolve_init_unknown set_value_unresolved get_value_unresolved_raises
      stdout_encodes_simps)

text \<open>
  C8. \<open>get_value\<close> is to return a number for every name and every store, 0.0 on either
  kind of miss. With 100 stored for net income, it returns 0.0 for a known id with nothing
  stored and for an unknown name that can be printed, and it raises \<open>UnicodeEncodeError\<close>
  for the unknown name made of the lone surrogate U+D83D.
\<close>

theorem get_value_miss_raises:
  "get_value (ascii ''inventory'')
       (run [SetValue (ascii ''net_income'') 100] FinancialCalculator_init) = Inr 0
   \<and> get_value (ascii ''not_a_real_name'')
       (run [SetValue (ascii ''net_income'') 100] FinancialCalculator_init) = Inr 0
   \<and> get_value [55357]
       (run [SetValue (ascii ''net_income'') 100] FinancialCalculator_init)
       = Inl UnicodeEncodeError"
  by (simp add: get_value_cases stdout_encodes_simps stdout_encodes_ascii eval_simps)

text \<open>
  C10. When the name does not resolve, \<open>set_value\<close> raises and leaves the calculator, and
  so the value store, exactly as it was.
\<close>

theorem set_value_atomic_on_failure:
  assumes "resolve_name c name = None"
  shows "(\<exists>msg. fst (set_value name v c) = Inl (ValueError msg))
         \<and> data (snd (set_value name v c)) = data c \<and> snd (set_value name v c) = c"
  using assms by (simp add: set_value_unresolved)

theorem set_value_atomic_on_failure_witness:
  "resolve_name (run [SetValue (ascii ''net_income'') 100] FinancialCalculator_init)
       (ascii ''not_a_real_name'') = None
   \<and> data (snd (set_value (ascii ''not_a_real_name'') 1
        (run [SetValue (ascii ''net_income'') 100] FinancialCalculator_init)))
       (ascii ''net_income'') = Some 100
   \<and> snd (set_value (ascii ''not_a_real_name'') 1
        (run [SetValue (ascii ''net_income'') 100] FinancialCalculator_init))
       = run [SetValue (ascii ''net_income'') 100] FinancialCalculator_init"
  using set_value_atomic_on_failure
    [of "run [SetValue (ascii ''net_income'') 100] FinancialCalculator_init"
        "ascii ''not_a_real_name''" 1]
  by (simp add: resolve_init_unknown resolve_init_known run_simps data_set_value falsy_simps
      data_init ascii_Nil)

text \<open>
  The other exceptions of \<open>set_value\<close> are raised after the write: were the alias index to
  point at an id missing from the registry, or at an indicator whose display name cannot
  be printed, the call would fail and still change the store.
\<close>

lemma set_value_key_error:
  assumes "resolve_name c name = Some cid" and "cid \<noteq> []" and "registry c cid = None"
  shows "set_value name v c = (Inl (KeyError cid), c\<lparr>data := (data c)(cid \<mapsto> v)\<rparr>)"
  using assms by (simp add: set_value_def falsy_simps Let_def)

lemma set_value_print_error:
  assumes "resolve_name c name = Some cid" and "cid \<noteq> []" and "registry c cid = Some ind"
    and "\<not> stdout_encodes (display_name ind)"
  shows "set_value name v c = (Inl UnicodeEncodeError, c\<lparr>data := (data c)(cid \<mapsto> v)\<rparr>)"
  using assms
  by (simp add: set_value_def falsy_simps Let_def py_print_def stdout_encodes_set_message)

section \<open>The keys of the value store\<close>

lemma lookup_keys_SomeD:
  "lookup_keys tbl k = Some i \<Longrightarrow> \<exists>e \<in> set tbl. fst e = i \<and> k \<in> set (snd e)"
  by (force simp: lookup_keys_def dest!: find_Some_set)

lemma entry_keys_lower: "k \<in> set (entry_keys e) \<Longrightarrow> lower k = k"
proof -
  have "lower (strip (lower a)) = strip (lower a)" for a
    by (simp add: strip_lower [symmetric] lower_idem)
  then show "k \<in> set (entry_keys e) \<Longrightarrow> lower k = k"
    by (cases e) (auto simp: entry_keys_def lower_idem)
qed

text \<open>An id of the catalogue is no key of the alias index, or it is a key that stands for itself.\<close>

lemma catalog_id_not_raw_alias:
  assumes "(i, n, as) \<in> set catalog"
  shows "\<not> raw_alias FinancialCalculator_init i"
proof (cases "alias_map FinancialCalculator_init i")
  case None
  then show ?thesis by (simp add: raw_alias_def)
next
  case (Some j)
  then have "lookup_keys alias_keys i = Some j" by (simp add: alias_map_init)
  then obtain e' where e': "e' \<in> set alias_keys" "fst e' = j" "i \<in> set (snd e')"
    by (blast dest: lookup_keys_SomeD)
  from e'(1) obtain e0 where "e0 \<in> set catalog" and "e' = (fst e0, entry_keys e0)"
    unfolding alias_keys_catalog [symmetric] by auto
  with e'(3) have low: "lower i = i" by (simp add: entry_keys_lower)
  let ?e = "(i, entry_keys (i, n, as))"
  from assms have "?e \<in> set (map (\<lambda>e. (fst e, entry_keys e)) catalog)" by force
  then have "?e \<in> set alias_keys" by (simp only: alias_keys_catalog)
  moreover have "i \<in> set (snd ?e)" using low by (simp add: entry_keys_def)
  ultimately have "fst ?e = fst e'"
    using e'(1,3) by (blast intro: no_clash_pair [OF no_clash_alias_keys])
  with e'(2) Some show ?thesis by (simp add: raw_alias_def)
qed

lemma resolved_id_init:
  "falsy (resolve_name FinancialCalculator_init name)
     \<or> (the (resolve_name FinancialCalculator_init name) \<in> dom (registry FinancialCalculator_init)
        \<and> \<not> raw_alias FinancialCalculator_init (the (resolve_name FinancialCalculator_init name)))"
proof (cases "resolve_name FinancialCalculator_init name")
  case None
  then show ?thesis by (simp add: falsy_simps)
next
  case (Some i)
  then have a: "alias_map FinancialCalculator_init (strip (lower name)) = Some i"
    by (simp add: resolve_name_def)
  then have "i \<in> fst ` set catalog"
    using lookup_keys_Some_fst [of alias_keys "strip (lower name)" i]
    by (simp add: alias_map_init alias_keys_ids)
  then obtain n as where "(i, n, as) \<in> set catalog" by force
  with a Some show ?thesis
    by (auto dest: alias_map_init_registered catalog_id_not_raw_alias)
qed

lemma alias_map_reserved:
  "alias_map FinancialCalculator_init (ascii ''operation_cf'') = None"
  "alias_map FinancialCalculator_init (ascii ''investing_cf'') = None"
  "alias_map FinancialCalculator_init (ascii ''financing_cf'') = None"
  "alias_map FinancialCalculator_init (ascii ''cash'') = Some (ascii ''Cash'')"
  using resolve_init_unknown(5-7) resolve_init_known(14)
  by (simp_all add: resolve_name_def norm_names)

lemma raw_alias_cong: "alias_map c = alias_map c' \<Longrightarrow> raw_alias c k = raw_alias c' k"
  by (simp add: raw_alias_def)

lemma store_inv_set_value:
  assumes "alias_map c = alias_map FinancialCalculator_init"
    and "registry c = registry FinancialCalculator_init"
    and "store_inv c"
  shows "store_inv (snd (set_value name v c))"
proof -
  have r: "resolve_name c name = resolve_name FinancialCalculator_init name"
    using assms(1) by (rule resolve_name_cong)
  have a: "raw_alias (snd (set_value name v c)) k = raw_alias FinancialCalculator_init k"
    and b: "raw_alias c k = raw_alias FinancialCalculator_init k" for k
    using assms(1) by (simp_all add: raw_alias_def)
  show ?thesis
    using assms(2,3) resolved_id_init [of name]
    by (auto simp: store_inv_def data_set_value r a b)
qed

lemma store_inv_calculate:
  assumes "alias_map c = alias_map FinancialCalculator_init" and "store_inv c"
  shows "store_inv (snd (calculate_operational_cf c))"
    and "store_inv (snd (calculate_investing_cf c))"
    and "store_inv (snd (calculate_financing_cf c))"
    and "store_inv (snd (calculate_cash c))"
  using assms
  by (auto simp: store_inv_def calculate_eq reserved_keys_def raw_alias_def alias_map_reserved)

lemma store_inv_exec:
  assumes "alias_map c = alias_map FinancialCalculator_init"
    and "registry c = registry FinancialCalculator_init"
    and "store_inv c"
  shows "store_inv (exec x c)"
  using assms by (cases x) (simp_all add: store_inv_set_value store_inv_calculate)

lemma store_inv_init: "store_inv FinancialCalculator_init"
  by (simp add: store_inv_def data_init)

text \<open>
  C9 as stated does not hold: \<open>calculate_cash\<close> stores its total under \<open>cash\<close>, and \<open>cash\<close>
  is a key of the alias index that stands for the id \<open>Cash\<close>.
\<close>

theorem store_key_raw_alias_counterexample:
  "ascii ''cash'' \<in> dom (data (run [CalculateCash] FinancialCalculator_init))
   \<and> alias_map (run [CalculateCash] FinancialCalculator_init) (ascii ''cash'')
       = Some (ascii ''Cash'')
   \<and> ascii ''cash'' \<noteq> ascii ''Cash''
   \<and> ascii ''cash'' \<notin> dom (registry (run [CalculateCash] FinancialCalculator_init))"
proof -
  have "registry FinancialCalculator_init (ascii ''cash'') = None"
  proof (cases "registry FinancialCalculator_init (ascii ''cash'')")
    case None
    then show ?thesis .
  next
    case (Some ind)
    then obtain n as where "(ascii ''cash'', n, as) \<in> set catalog"
      by (blast dest: registry_init_Some)
    then have "ascii ''cash'' \<in> fst ` set alias_keys"
      unfolding alias_keys_ids by force
    then show ?thesis
      unfolding alias_keys_def by (simp only: list.set image_insert image_empty fst_conv
          insert_iff empty_iff key_eq_simps)
  qed
  then show ?thesis
    by (simp add: run_simps calculate_eq alias_map_reserved ascii_inject domIff)
qed

text \<open>
  C9, amended. After any sequence of calls on a fresh calculator, every key of the value
  store is an id of the registry or one of the four reserved keys, and the only key that
  is an alias standing for another id is the reserved key \<open>cash\<close>.
\<close>

theorem store_keys_invariant: "store_inv (run cs FinancialCalculator_init)"
proof (induction cs rule: rev_induct)
  case Nil
  show ?case by (simp add: run_simps store_inv_init)
next
  case (snoc x cs)
  then show ?case by (simp add: run_snoc store_inv_exec)
qed

theorem store_keys_invariant_witness:
  "ascii ''cash''
     \<in> dom (data (run [SetValue (ascii ''NI'') 5, CalculateCash] FinancialCalculator_init))
   \<and> raw_alias (run [SetValue (ascii ''NI'') 5, CalculateCash] FinancialCalculator_init)
        (ascii ''cash'')
   \<and> (ascii ''cash''
         \<in> dom (registry (run [SetValue (ascii ''NI'') 5, CalculateCash] FinancialCalculator_init))
       \<or> ascii ''cash'' \<in> set reserved_keys)
   \<and> ascii ''net_income''
     \<in> dom (data (run [SetValue (ascii ''NI'') 5, CalculateCash] FinancialCalculator_init))
   \<and> \<not> raw_alias (run [SetValue (ascii ''NI'') 5, CalculateCash] FinancialCalculator_init)
        (ascii ''net_income'')
   \<and> ascii ''net_income''
     \<in> dom (registry (run [SetValue (ascii ''NI'') 5, CalculateCash] FinancialCalculator_init))"
proof -
  let ?c = "run [SetValue (ascii ''NI'') 5, CalculateCash] FinancialCalculator_init"
  have d: "ascii ''cash'' \<in> dom (data ?c)" "ascii ''net_income'' \<in> dom (data ?c)"
    by (simp_all add: run_simps data_set_value calculate_eq resolve_init_known falsy_simps
        ascii_Nil ascii_inject)
  have a: "raw_alias ?c (ascii ''cash'')"
    by (simp add: raw_alias_def alias_map_reserved ascii_inject)
  have n: "ascii ''net_income'' \<notin> set reserved_keys" "ascii ''net_income'' \<noteq> ascii ''cash''"
    by (simp_all add: reserved_keys_def ascii_inject)
  from store_keys_invariant [of "[SetValue (ascii ''NI'') 5, CalculateCash]"] d a n
  show ?thesis unfolding store_inv_def by blast
qed

section \<open>Names of an indicator\<close>

lemma registered_indicator:
  assumes "ind \<in> ran (registry FinancialCalculator_init)"
  obtains n as where "(id_of ind, n, as) \<in> set catalog"
    and "ind = Indicator_init (id_of ind) n as"
    and "registry FinancialCalculator_init (id_of ind) = Some ind"
proof -
  from assms obtain k where k: "registry FinancialCalculator_init k = Some ind"
    by (auto simp: ran_def)
  then obtain n as where e: "(k, n, as) \<in> set catalog" and ind: "ind = Indicator_init k n as"
    by (blast dest: registry_init_Some)
  from ind have "id_of ind = k" by (simp add: Indicator_init_def)
  with k e ind that show ?thesis by simp
qed

lemma normalised_alias: "strip (lower (strip (lower a))) = strip (lower a)"
  by (simp add: strip_lower [of "strip a"] strip_lower [of a] strip_idem lower_idem)

lemma name_key:
  assumes "(i, n, as) \<in> set catalog" and "s \<in> set (names_of (Indicator_init i n as))"
  shows "strip (lower s) \<in> set (entry_keys (i, n, as))"
proof -
  from assms(1) catalog_trimmed have t: "trimmed i" "trimmed n" by force+
  from assms(2) consider "s = i" | "s = n" | a where "a \<in> set as" "s = strip (lower a)"
    by (auto simp: names_of_def Indicator_init_def)
  then show ?thesis
  proof cases
    case 1
    with t show ?thesis by (simp add: entry_keys_def strip_trimmed trimmed_lower)
  next
    case 2
    with t show ?thesis by (simp add: entry_keys_def strip_trimmed trimmed_lower)
  next
    case 3
    then show ?thesis by (simp add: entry_keys_def normalised_alias)
  qed
qed

lemma names_resolve:
  assumes "ind \<in> ran (registry FinancialCalculator_init)" and "s \<in> set (names_of ind)"
  shows "resolve_name FinancialCalculator_init s = Some (id_of ind)"
proof -
  from assms(1) obtain n as where e: "(id_of ind, n, as) \<in> set catalog"
    and ind: "ind = Indicator_init (id_of ind) n as"
    by (rule registered_indicator)
  let ?e = "(id_of ind, entry_keys (id_of ind, n, as))"
  from e have "?e \<in> set (map (\<lambda>e. (fst e, entry_keys e)) catalog)" by force
  then have "?e \<in> set alias_keys" by (simp only: alias_keys_catalog)
  moreover have "strip (lower s) \<in> set (snd ?e)"
    using name_key [OF e] assms(2) ind by simp
  ultimately have "lookup_keys alias_keys (strip (lower s)) = Some (fst ?e)"
    by (rule lookup_keys_no_clash [OF no_clash_alias_keys])
  then show ?thesis by (simp add: resolve_name_def alias_map_init)
qed

lemma variant_normal_form:
  assumes "recased s t" and "list_all is_space ws1" and "list_all is_space ws2"
  shows "strip (lower (ws1 @ t @ ws2)) = strip (lower s)"
  using assms by (simp add: lower_append lower_spaces lower_recased strip_pad)

text \<open>
  C6. For every registered indicator and every one of its names (id, display name,
  alias), a spelling of that name in another letter case, with white space around it,
  resolves to the id of the indicator.
\<close>

theorem resolve_name_variants:
  assumes "ind \<in> ran (registry FinancialCalculator_init)"
    and "s \<in> set (names_of ind)"
    and "recased s t"
    and "list_all is_space ws1" and "list_all is_space ws2"
  shows "resolve_name FinancialCalculator_init (ws1 @ t @ ws2) = Some (id_of ind)"
proof -
  have "resolve_name FinancialCalculator_init (ws1 @ t @ ws2)
          = resolve_name FinancialCalculator_init s"
    using assms(3-5) by (simp add: resolve_name_def variant_normal_form)
  with names_resolve [OF assms(1,2)] show ?thesis by simp
qed

theorem resolve_name_variants_witness:
  "resolve_name FinancialCalculator_init ([32, 9] @ ascii ''Net INCOME'' @ [10])
     = Some (ascii ''net_income'')"
proof -
  let ?n = "[1063, 1080, 1089, 1090, 1072, 1103, 32, 1087, 1088, 1080, 1073, 1099, 1083, 1100]"
  let ?as = "[ascii ''delNetIncome'', ascii ''NI'', ascii ''Net Income'', ascii ''net income'']"
  let ?ind = "Indicator_init (ascii ''net_income'') ?n ?as"
  have "(ascii ''net_income'', ?n, ?as) \<in> set catalog"
    by (simp add: catalog_def)
  then have r: "?ind \<in> ran (registry FinancialCalculator_init)"
    by (auto simp: ran_def dest: registry_init_catalog)
  have s: "ascii ''net income'' \<in> set (names_of ?ind)"
    by (simp add: names_of_def Indicator_init_def norm_simps)
  have v: "recased (ascii ''net income'') (ascii ''Net INCOME'')"
    by (simp add: recased_def ascii_def lower_cp_def upper_cp_def)
  have w: "list_all is_space [32, 9]" "list_all is_space [10]"
    by (simp_all add: is_space_def)
  from resolve_name_variants [OF r s v w] show ?thesis
    by (simp add: Indicator_init_def)
qed

text \<open>
  The spellings as they are written in the catalogue (the id, the display name, and the
  aliases before they are normalised) resolve as well, in any letter case and with white
  space around them.
\<close>

lemma catalog_spelling_resolves:
  assumes "(i, n, as) \<in> set catalog" and "s = i \<or> s = n \<or> s \<in> set as"
    and "recased s t" and "list_all is_space ws1" and "list_all is_space ws2"
  shows "resolve_name FinancialCalculator_init (ws1 @ t @ ws2) = Some i"
proof -
  from assms(1) catalog_trimmed have t: "trimmed i" "trimmed n" by force+
  have key: "strip (lower s) \<in> set (entry_keys (i, n, as))"
    using assms(2) t by (auto simp: entry_keys_def strip_trimmed trimmed_lower)
  let ?e = "(i, entry_keys (i, n, as))"
  from assms(1) have "?e \<in> set (map (\<lambda>e. (fst e, entry_keys e)) catalog)" by force
  then have "?e \<in> set alias_keys" by (simp only: alias_keys_catalog)
  moreover from key have "strip (lower s) \<in> set (snd ?e)" by simp
  ultimately have "lookup_keys alias_keys (strip (lower s)) = Some (fst ?e)"
    by (rule lookup_keys_no_clash [OF no_clash_alias_keys])
  then show ?thesis
    using assms(3-5) by (simp add: resolve_name_def alias_map_init variant_normal_form)
qed

lemma registered_indicator_prints:
  assumes "ind \<in> ran (registry FinancialCalculator_init)"
  shows "stdout_encodes (display_name ind)" and "stdout_encodes (id_of ind)"
proof -
  from assms obtain n as where e: "(id_of ind, n, as) \<in> set catalog"
    and ind: "ind = Indicator_init (id_of ind) n as"
    by (rule registered_indicator)
  from e catalog_code_points have "list_all modelled_cp (id_of ind @ n @ concat as)" by force
  then have "list_all modelled_cp (id_of ind)" and "list_all modelled_cp n" by simp_all
  moreover from ind have "display_name ind = n"
    by (metis Indicator.select_convs(2) Indicator_init_def)
  ultimately show "stdout_encodes (display_name ind)" and "stdout_encodes (id_of ind)"
    by (simp_all add: stdout_encodes_modelled)
qed

text \<open>
  C7. For a registered indicator and any two names that resolve to it (its id, its
  display name, its aliases as registered or as normalised, in any letter case and with
  white space around them), in whatever state a sequence of calls has left the
  calculator: writing an amount under one name succeeds, and reading under the other
  returns that amount.
\<close>

theorem set_get_round_trip:
  assumes "ind \<in> ran (registry FinancialCalculator_init)"
    and "resolve_name FinancialCalculator_init a1 = Some (id_of ind)"
    and "resolve_name FinancialCalculator_init a2 = Some (id_of ind)"
  shows "fst (set_value a1 v (run cs FinancialCalculator_init)) = Inr ()
         \<and> get_value a2 (snd (set_value a1 v (run cs FinancialCalculator_init))) = Inr v"
proof -
  let ?c = "run cs FinancialCalculator_init"
  from assms(1) obtain n as where e: "(id_of ind, n, as) \<in> set catalog"
    and reg: "registry FinancialCalculator_init (id_of ind) = Some ind"
    by (rule registered_indicator)
  from e catalog_ids_nonempty have ne: "id_of ind \<noteq> []" by force
  have r1: "resolve_name ?c a1 = Some (id_of ind)" and r2: "resolve_name ?c a2 = Some (id_of ind)"
    using assms(2,3) by simp_all
  from reg have "registry ?c (id_of ind) = Some ind" by simp
  with r1 ne have sv: "set_value a1 v ?c = (Inr (), ?c\<lparr>data := (data ?c)(id_of ind \<mapsto> v)\<rparr>)"
    using registered_indicator_prints [OF assms(1)] by (simp add: set_value_resolved)
  have "resolve_name (?c\<lparr>data := (data ?c)(id_of ind \<mapsto> v)\<rparr>) a2 = Some (id_of ind)"
    using r2 by (simp add: resolve_name_def)
  then have "get_value a2 (?c\<lparr>data := (data ?c)(id_of ind \<mapsto> v)\<rparr>) = Inr v"
    using ne by (simp add: get_value_resolved)
  with sv show ?thesis by simp
qed

theorem set_get_round_trip_witness:
  "resolve_name FinancialCalculator_init (ascii ''NI'') = Some (ascii ''net_income'')
   \<and> resolve_name FinancialCalculator_init ([32] @ ascii ''Net Income'' @ [9, 10])
       = Some (ascii ''net_income'')
   \<and> fst (set_value (ascii ''NI'') 42
         (run [SetValue (ascii ''net_income'') 3] FinancialCalculator_init)) = Inr ()
   \<and> get_value ([32] @ ascii ''Net Income'' @ [9, 10])
        (snd (set_value (ascii ''NI'') 42
               (run [SetValue (ascii ''net_income'') 3] FinancialCalculator_init))) = Inr 42"
proof -
  let ?n = "[1063, 1080, 1089, 1090, 1072, 1103, 32, 1087, 1088, 1080, 1073, 1099, 1083, 1100]"
  let ?as = "[ascii ''delNetIncome'', ascii ''NI'', ascii ''Net Income'', ascii ''net income'']"
  let ?ind = "Indicator_init (ascii ''net_income'') ?n ?as"
  have c: "(ascii ''net_income'', ?n, ?as) \<in> set catalog"
    by (simp add: catalog_def)
  then have r: "?ind \<in> ran (registry FinancialCalculator_init)"
    by (auto simp: ran_def dest: registry_init_catalog)
  have i: "id_of ?ind = ascii ''net_income''"
    by (simp add: Indicator_init_def)
  have w: "list_all is_space [32]" "list_all is_space [9, 10]"
    by (simp_all add: is_space_def)
  have v: "recased (ascii ''Net Income'') (ascii ''Net Income'')"
    by (simp add: recased_def list_all2_same)
  have a1: "resolve_name FinancialCalculator_init (ascii ''NI'') = Some (id_of ?ind)"
    by (simp only: i resolve_init_known)
  have a2: "resolve_name FinancialCalculator_init ([32] @ ascii ''Net Income'' @ [9, 10])
      = Some (id_of ?ind)"
    unfolding i by (rule catalog_spelling_resolves [OF c _ v w]) simp
  from set_get_round_trip [OF r a1 a2, of 42 "[SetValue (ascii ''net_income'') 3]"] a1 a2
  show ?thesis by (simp only: i simp_thms)
qed

section \<open>The formulas on the fresh registry\<close>

text \<open>
  Seven names that the formulas pass to \<open>get_value\<close> are not keys of the alias index, so
  the reads of them return 0.0 whatever has been stored.
\<close>

lemma get_value_unknown_names:
  "get_value (ascii ''current_liabilities'') (run cs FinancialCalculator_init) = Inr 0"
  "get_value (ascii ''net_property_plant_equipment'') (run cs FinancialCalculator_init) = Inr 0"
  "get_value (ascii ''non_current_liabilities'') (run cs FinancialCalculator_init) = Inr 0"
  "get_value (ascii ''operation_cf'') (run cs FinancialCalculator_init) = Inr 0"
  "get_value (ascii ''investing_cf'') (run cs FinancialCalculator_init) = Inr 0"
  "get_value (ascii ''financing_cf'') (run cs FinancialCalculator_init) = Inr 0"
  by (simp_all add: get_value_unresolved resolve_init_unknown stdout_encodes_ascii)

lemma calculate_cash_always_zero: "fst (calculate_cash (run cs FinancialCalculator_init)) = Inr 0"
  by (simp add: calculate_cash_def get_value_unknown_names)

text \<open>
  C3. With 50 stored for net property, plant and equipment (through its alias \<open>NetPPE\<close>)
  and 30 for other equity, the documented formula gives \<open>-50 + 30 = -20\<close>;
  \<open>calculate_investing_cf\<close> returns 30.
\<close>

theorem calculate_investing_cf_drops_nppe:
  "data (run [SetValue (ascii ''NetPPE'') 50, SetValue (ascii ''other_equity'') 30]
          FinancialCalculator_init) (ascii ''net_property, plant & equipment'') = Some 50
   \<and> fst (calculate_investing_cf
        (run [SetValue (ascii ''NetPPE'') 50, SetValue (ascii ''other_equity'') 30]
          FinancialCalculator_init)) = Inr 30"
  by (simp add: calculate_eq eval_simps)

text \<open>
  C4. With 7 stored for the non-current liabilities (through the alias \<open>NCL\<close>), 50 for
  contributed capital and 10 for dividends, the documented formula gives
  \<open>7 + 50 - 10 = 47\<close>; \<open>calculate_financing_cf\<close> returns 40.
\<close>

theorem calculate_financing_cf_drops_ncl:
  "data (run [SetValue (ascii ''NCL'') 7, SetValue (ascii ''contributed_capital'') 50,
              SetValue (ascii ''dividends'') 10]
          FinancialCalculator_init) (ascii ''non-current liabilities'') = Some 7
   \<and> fst (calculate_financing_cf
        (run [SetValue (ascii ''NCL'') 7, SetValue (ascii ''contributed_capital'') 50,
              SetValue (ascii ''dividends'') 10]
          FinancialCalculator_init)) = Inr 40"
  by (simp add: calculate_eq eval_simps)

text \<open>
  C2. The documented example sets seven inputs and expects 118. The name
  \<open>current_liabilities\<close> is no key of the alias index, so writing it raises and reading it
  gives 0.0 (the same holds for the spelling \<open>depreciation_expense\<close>; the registry and the
  formula spell it \<open>depreciation_expence\<close>). With the other six inputs stored,
  \<open>calculate_operational_cf\<close> returns \<open>100 + 20 + 5 - 10 - 3 + 0 - 2 = 110\<close> and stores it
  under \<open>operation_cf\<close>.
\<close>

theorem calculate_operational_cf_drops_current_liabilities:
  "fst (set_value (ascii ''current_liabilities'') 8 FinancialCalculator_init)
     = Inl (ValueError (unknown_indicator_message (ascii ''current_liabilities'')))
   \<and> fst (set_value (ascii ''depreciation_expense'') 20 FinancialCalculator_init)
     = Inl (ValueError (unknown_indicator_message (ascii ''depreciation_expense'')))
   \<and> fst (calculate_operational_cf
        (run [SetValue (ascii ''net_income'') 100,
              SetValue (ascii ''depreciation_expence'') 20,
              SetValue (ascii ''net_accounts_receivable'') 5,
              SetValue (ascii ''inventory'') 10,
              SetValue (ascii ''other_current_assets'') 3,
              SetValue (ascii ''current_liabilities'') 8,
              SetValue (ascii ''gain_loss_on_disposal_of_PPE'') 2]
          FinancialCalculator_init)) = Inr 110
   \<and> data (snd (calculate_operational_cf
        (run [SetValue (ascii ''net_income'') 100,
              SetValue (ascii ''depreciation_expence'') 20,
              SetValue (ascii ''net_accounts_receivable'') 5,
              SetValue (ascii ''inventory'') 10,
              SetValue (ascii ''other_current_assets'') 3,
              SetValue (ascii ''current_liabilities'') 8,
              SetValue (ascii ''gain_loss_on_disposal_of_PPE'') 2]
          FinancialCalculator_init))) (ascii ''operation_cf'') = Some 110"
proof -
  define c where "c = run [SetValue (ascii ''net_income'') 100,
              SetValue (ascii ''depreciation_expence'') 20,
              SetValue (ascii ''net_accounts_receivable'') 5,
              SetValue (ascii ''inventory'') 10,
              SetValue (ascii ''other_current_assets'') 3,
              SetValue (ascii ''current_liabilities'') 8,
              SetValue (ascii ''gain_loss_on_disposal_of_PPE'') 2]
          FinancialCalculator_init"
  have r: "resolve_name c name = resolve_name FinancialCalculator_init name" for name
    by (simp add: c_def)
  have d: "data c = [ascii ''net_income'' \<mapsto> 100, ascii ''depreciation_expence'' \<mapsto> 20,
      ascii ''net_accounts_receivable'' \<mapsto> 5, ascii ''inventory'' \<mapsto> 10,
      ascii ''other_current_assets'' \<mapsto> 3, ascii ''gain_loss_on_disposal_of_PPE'' \<mapsto> 2]"
    by (simp add: c_def run_simps data_set_value falsy_simps resolve_init_known
        resolve_init_unknown data_init ascii_Nil)
  have v: "calculate_operational_cf c
      = (Inr 110, c\<lparr>data := (data c)(ascii ''operation_cf'' \<mapsto> 110)\<rparr>)"
    by (simp add: calculate_operational_cf_eq stored_amount_def r d falsy_simps
        resolve_init_known resolve_init_unknown ascii_inject ascii_Nil)
  show ?thesis
    unfolding c_def [symmetric] v
    by (simp add: set_value_unresolved resolve_init_unknown)
qed

text \<open>
  C1. With 100 stored for net income, 30 for other equity and 50 for contributed capital,
  the three component calculations return 100, 30 and 50 and store them under
  \<open>operation_cf\<close>, \<open>investing_cf\<close> and \<open>financing_cf\<close>; \<open>calculate_cash\<close>, called after them,
  returns 0.0 and not their sum 180.
\<close>

theorem calculate_cash_after_components:
  "fst (calculate_operational_cf
         (run [SetValue (ascii ''net_income'') 100, SetValue (ascii ''other_equity'') 30,
               SetValue (ascii ''contributed_capital'') 50] FinancialCalculator_init)) = Inr 100
   \<and> fst (calculate_investing_cf
         (run [SetValue (ascii ''net_income'') 100, SetValue (ascii ''other_equity'') 30,
               SetValue (ascii ''contributed_capital'') 50, CalculateOperationalCF]
            FinancialCalculator_init)) = Inr 30
   \<and> fst (calculate_financing_cf
         (run [SetValue (ascii ''net_income'') 100, SetValue (ascii ''other_equity'') 30,
               SetValue (ascii ''contributed_capital'') 50, CalculateOperationalCF,
               CalculateInvestingCF] FinancialCalculator_init)) = Inr 50
   \<and> data (run [SetValue (ascii ''net_income'') 100, SetValue (ascii ''other_equity'') 30,
               SetValue (ascii ''contributed_capital'') 50, CalculateOperationalCF,
               CalculateInvestingCF, CalculateFinancingCF] FinancialCalculator_init)
       = [ascii ''net_income'' \<mapsto> 100, ascii ''other_equity'' \<mapsto> 30,
          ascii ''contributed_capital'' \<mapsto> 50, ascii ''operation_cf'' \<mapsto> 100,
          ascii ''investing_cf'' \<mapsto> 30, ascii ''financing_cf'' \<mapsto> 50]
   \<and> fst (calculate_cash
         (run [SetValue (ascii ''net_income'') 100, SetValue (ascii ''other_equity'') 30,
               SetValue (ascii ''contributed_capital'') 50, CalculateOperationalCF,
               CalculateInvestingCF, CalculateFinancingCF] FinancialCalculator_init)) = Inr 0"
proof -
  define c0 where "c0 = run [SetValue (ascii ''net_income'') 100,
    SetValue (ascii ''other_equity'') 30, SetValue (ascii ''contributed_capital'') 50]
    FinancialCalculator_init"
  define c1 where "c1 = snd (calculate_operational_cf c0)"
  define c2 where "c2 = snd (calculate_investing_cf c1)"
  define c3 where "c3 = snd (calculate_financing_cf c2)"
  note gv = stored_amount_def falsy_simps resolve_init_known resolve_init_unknown
    ascii_inject ascii_Nil
  have r: "resolve_name c0 name = resolve_name FinancialCalculator_init name"
    "resolve_name c1 name = resolve_name FinancialCalculator_init name"
    "resolve_name c2 name = resolve_name FinancialCalculator_init name"
    "resolve_name c3 name = resolve_name FinancialCalculator_init name" for name
    by (simp_all add: c0_def c1_def c2_def c3_def)
  have d0: "data c0 = [ascii ''net_income'' \<mapsto> 100, ascii ''other_equity'' \<mapsto> 30,
      ascii ''contributed_capital'' \<mapsto> 50]"
    by (simp add: c0_def run_simps data_set_value falsy_simps resolve_init_known data_init
        ascii_Nil)
  have e0: "calculate_operational_cf c0
      = (Inr 100, c0\<lparr>data := (data c0)(ascii ''operation_cf'' \<mapsto> 100)\<rparr>)"
    by (simp add: calculate_operational_cf_eq gv r d0)
  have d1: "data c1 = (data c0)(ascii ''operation_cf'' \<mapsto> 100)"
    by (simp add: c1_def e0)
  have e1: "calculate_investing_cf c1
      = (Inr 30, c1\<lparr>data := (data c1)(ascii ''investing_cf'' \<mapsto> 30)\<rparr>)"
    by (simp add: calculate_investing_cf_eq gv r d1 d0)
  have d2: "data c2 = (data c1)(ascii ''investing_cf'' \<mapsto> 30)"
    by (simp add: c2_def e1)
  have e2: "calculate_financing_cf c2
      = (Inr 50, c2\<lparr>data := (data c2)(ascii ''financing_cf'' \<mapsto> 50)\<rparr>)"
    by (simp add: calculate_financing_cf_eq gv r d2 d1 d0)
  have d3: "data c3 = (data c2)(ascii ''financing_cf'' \<mapsto> 50)"
    by (simp add: c3_def e2)
  have v3: "fst (calculate_cash c3) = Inr 0"
    by (simp add: calculate_cash_eq gv r)
  have s1: "run [SetValue (ascii ''net_income'') 100, SetValue (ascii ''other_equity'') 30,
               SetValue (ascii ''contributed_capital'') 50, CalculateOperationalCF]
            FinancialCalculator_init = c1"
    and s2: "run [SetValue (ascii ''net_income'') 100, SetValue (ascii ''other_equity'') 30,
               SetValue (ascii ''contributed_capital'') 50, CalculateOperationalCF,
               CalculateInvestingCF] FinancialCalculator_init = c2"
    and s3: "run [SetValue (ascii ''net_income'') 100, SetValue (ascii ''other_equity'') 30,
               SetValue (ascii ''contributed_capital'') 50, CalculateOperationalCF,
               CalculateInvestingCF, CalculateFinancingCF] FinancialCalculator_init = c3"
    by (simp_all only: c0_def c1_def c2_def c3_def run_simps exec.simps)
  show ?thesis
    unfolding s1 s2 s3 c0_def [symmetric]
    by (simp only: e0 e1 e2 v3 d3 d2 d1 d0 fst_conv simp_thms)
qed

end
